theory Spec2Isabelle
  imports Main "HOL-Library.Word"
begin

unbundle bit_operations_syntax

section \<open>The VM-exit engine of HyperPlatform/vmm.cpp\<close>

text \<open>
  The model follows the \<^verbatim>\<open>_AMD64_\<close> build of vmm.cpp: \<^verbatim>\<open>ULONG_PTR\<close> is a 64-bit
  word and \<^verbatim>\<open>IsX64()\<close> is true. Every handler is a function on an explicit
  state: the context of the exit and the machine. A call that never returns
  (\<^verbatim>\<open>HYPERPLATFORM_COMMON_BUG_CHECK\<close>, a dereference of the null pointer) is the
  \<open>Inl\<close> branch of the result. Logging and
  performance macros have no effect on the state and are left out;
  \<^verbatim>\<open>HYPERPLATFORM_COMMON_DBG_BREAK\<close> continues when no debugger is attached and is
  modelled as doing nothing.
\<close>

type_synonym u8 = "8 word"
type_synonym u16 = "16 word"
type_synonym u32 = "32 word"
type_synonym u64 = "64 word"

subsection \<open>The virtual-machine control structure\<close>

text \<open>The fields of \<^verbatim>\<open>enum class VmcsField\<close> that vmm.cpp names.\<close>

datatype VmcsField =
    kVirtualProcessorId
  | kGuestEsSelector | kGuestCsSelector | kGuestLdtrSelector | kGuestTrSelector
  | kGuestIa32Debugctl | kGuestPhysicalAddress
  | kVmInstructionError | kVmExitReason | kVmExitIntrInfo | kVmExitIntrErrorCode
  | kVmExitInstructionLen | kVmxInstructionInfo
  | kVmEntryIntrInfoField | kVmEntryExceptionErrorCode | kVmEntryInstructionLen
  | kGuestGdtrLimit | kGuestIdtrLimit | kGuestSsArBytes | kGuestSysenterCs
  | kCr0ReadShadow | kCr4ReadShadow | kExitQualification
  | kGuestCr0 | kGuestCr3 | kGuestCr4
  | kGuestEsBase | kGuestCsBase | kGuestSsBase | kGuestDsBase | kGuestFsBase | kGuestGsBase
  | kGuestGdtrBase | kGuestIdtrBase | kGuestDr7
  | kGuestRsp | kGuestRip | kGuestRflags | kGuestSysenterEsp | kGuestSysenterEip

text \<open>
  Modelled from the spec: ia32\_type.h, which gives every field its encoding, is not part
  of the sources. The encodings are those of the architecture manual; the handlers use
  them only to choose between the 32/natural-width and the 64-bit accessor.
\<close>

fun VmcsField_encoding :: "VmcsField \<Rightarrow> u32" where
  "VmcsField_encoding kVirtualProcessorId = 0x0000"
| "VmcsField_encoding kGuestEsSelector = 0x0800"
| "VmcsField_encoding kGuestCsSelector = 0x0802"
| "VmcsField_encoding kGuestLdtrSelector = 0x080c"
| "VmcsField_encoding kGuestTrSelector = 0x080e"
| "VmcsField_encoding kGuestIa32Debugctl = 0x2802"
| "VmcsField_encoding kGuestPhysicalAddress = 0x2400"
| "VmcsField_encoding kVmInstructionError = 0x4400"
| "VmcsField_encoding kVmExitReason = 0x4402"
| "VmcsField_encoding kVmExitIntrInfo = 0x4404"
| "VmcsField_encoding kVmExitIntrErrorCode = 0x4406"
| "VmcsField_encoding kVmExitInstructionLen = 0x440c"
| "VmcsField_encoding kVmxInstructionInfo = 0x440e"
| "VmcsField_encoding kVmEntryIntrInfoField = 0x4016"
| "VmcsField_encoding kVmEntryExceptionErrorCode = 0x4018"
| "VmcsField_encoding kVmEntryInstructionLen = 0x401a"
| "VmcsField_encoding kGuestGdtrLimit = 0x4810"
| "VmcsField_encoding kGuestIdtrLimit = 0x4812"
| "VmcsField_encoding kGuestSsArBytes = 0x4818"
| "VmcsField_encoding kGuestSysenterCs = 0x482a"
| "VmcsField_encoding kCr0ReadShadow = 0x6004"
| "VmcsField_encoding kCr4ReadShadow = 0x6006"
| "VmcsField_encoding kExitQualification = 0x6400"
| "VmcsField_encoding kGuestCr0 = 0x6800"
| "VmcsField_encoding kGuestCr3 = 0x6802"
| "VmcsField_encoding kGuestCr4 = 0x6804"
| "VmcsField_encoding kGuestEsBase = 0x6806"
| "VmcsField_encoding kGuestCsBase = 0x6808"
| "VmcsField_encoding kGuestSsBase = 0x680a"
| "VmcsField_encoding kGuestDsBase = 0x680c"
| "VmcsField_encoding kGuestFsBase = 0x680e"
| "VmcsField_encoding kGuestGsBase = 0x6810"
| "VmcsField_encoding kGuestGdtrBase = 0x6816"
| "VmcsField_encoding kGuestIdtrBase = 0x6818"
| "VmcsField_encoding kGuestDr7 = 0x681a"
| "VmcsField_encoding kGuestRsp = 0x681c"
| "VmcsField_encoding kGuestRip = 0x681e"
| "VmcsField_encoding kGuestRflags = 0x6820"
| "VmcsField_encoding kGuestSysenterEsp = 0x6824"
| "VmcsField_encoding kGuestSysenterEip = 0x6826"

subsection \<open>Registers and the per-exit context\<close>

text \<open>\<^verbatim>\<open>GpRegisters\<close> of the 64-bit build, in the order the trampoline pushes them.\<close>

record GpRegisters =
  r15 :: u64
  r14 :: u64
  r13 :: u64
  r12 :: u64
  r11 :: u64
  r10 :: u64
  r9 :: u64
  r8 :: u64
  di :: u64
  si :: u64
  bp :: u64
  sp :: u64
  bx :: u64
  dx :: u64
  cx :: u64
  ax :: u64

text \<open>
  A \<^verbatim>\<open>ULONG_PTR *\<close> into the register file, as \<^verbatim>\<open>VmmpSelectRegister\<close> returns it, is
  the name of the slot it points to.
\<close>

datatype Register =
    RegAx | RegCx | RegDx | RegBx | RegSp | RegBp | RegSi | RegDi
  | RegR8 | RegR9 | RegR10 | RegR11 | RegR12 | RegR13 | RegR14 | RegR15

fun reg_read :: "Register \<Rightarrow> GpRegisters \<Rightarrow> u64" where
  "reg_read RegAx g = ax g"
| "reg_read RegCx g = cx g"
| "reg_read RegDx g = dx g"
| "reg_read RegBx g = bx g"
| "reg_read RegSp g = sp g"
| "reg_read RegBp g = bp g"
| "reg_read RegSi g = si g"
| "reg_read RegDi g = di g"
| "reg_read RegR8 g = r8 g"
| "reg_read RegR9 g = r9 g"
| "reg_read RegR10 g = r10 g"
| "reg_read RegR11 g = r11 g"
| "reg_read RegR12 g = r12 g"
| "reg_read RegR13 g = r13 g"
| "reg_read RegR14 g = r14 g"
| "reg_read RegR15 g = r15 g"

fun reg_write :: "Register \<Rightarrow> u64 \<Rightarrow> GpRegisters \<Rightarrow> GpRegisters" where
  "reg_write RegAx v g = g\<lparr>ax := v\<rparr>"
| "reg_write RegCx v g = g\<lparr>cx := v\<rparr>"
| "reg_write RegDx v g = g\<lparr>dx := v\<rparr>"
| "reg_write RegBx v g = g\<lparr>bx := v\<rparr>"
| "reg_write RegSp v g = g\<lparr>sp := v\<rparr>"
| "reg_write RegBp v g = g\<lparr>bp := v\<rparr>"
| "reg_write RegSi v g = g\<lparr>si := v\<rparr>"
| "reg_write RegDi v g = g\<lparr>di := v\<rparr>"
| "reg_write RegR8 v g = g\<lparr>r8 := v\<rparr>"
| "reg_write RegR9 v g = g\<lparr>r9 := v\<rparr>"
| "reg_write RegR10 v g = g\<lparr>r10 := v\<rparr>"
| "reg_write RegR11 v g = g\<lparr>r11 := v\<rparr>"
| "reg_write RegR12 v g = g\<lparr>r12 := v\<rparr>"
| "reg_write RegR13 v g = g\<lparr>r13 := v\<rparr>"
| "reg_write RegR14 v g = g\<lparr>r14 := v\<rparr>"
| "reg_write RegR15 v g = g\<lparr>r15 := v\<rparr>"

text \<open>
  \<^verbatim>\<open>VmmInitialStack\<close>: the register file, the two trap-frame slots the dispatcher
  fills, and the pointer to the processor's persistent data.
\<close>

record VmmInitialStack =
  gp_regs :: GpRegisters
  trap_frame_sp :: u64
  trap_frame_ip :: u64
  processor_data :: u64

text \<open>
  \<^verbatim>\<open>GuestContext\<close>. Its union of \<^verbatim>\<open>stack\<close> and \<^verbatim>\<open>gp_regs\<close> is the one field
  \<open>stack\<close>: the register file is \<open>gp_regs (stack c)\<close>.
\<close>

record GuestContext =
  stack :: VmmInitialStack
  flag_reg :: u64
  ip :: u64
  cr8 :: u64
  irql :: u8
  vm_continue :: bool

definition regs :: "GuestContext \<Rightarrow> GpRegisters" where
  "regs c = gp_regs (stack c)"

definition set_regs :: "GpRegisters \<Rightarrow> GuestContext \<Rightarrow> GuestContext" where
  "set_regs g c = c\<lparr>stack := (stack c)\<lparr>gp_regs := g\<rparr>\<rparr>"

text \<open>\<^verbatim>\<open>ProcessorData\<close>, as far as vmm.cpp reads it.\<close>

record ProcessorData =
  shared_data :: u64
  ept_data :: u64

subsection \<open>The machine\<close>

text \<open>
  What the handlers do to the processor is kept twice: as the state it leaves (the
  control structure, the real model-specific, control and debug registers, the memory
  seen through each address-space root) and as the chronological list of the accesses
  made. A dereference of a guest-virtual address records the address-space root that
  was active when it happened.
\<close>

datatype event =
    EvVmRead VmcsField
  | EvVmWrite VmcsField u64
  | EvReadMsr u32
  | EvWriteMsr u32 u64
  | EvWriteCr3 u64
  | EvLoad u64 u64 nat
  | EvStore u64 u64 nat
  | EvPortIn u16 nat
  | EvPortOut u16 nat u64
  | EvCpuid u32 u32
  | EvRdtsc
  | EvRdtscp
  | EvXsetbv u32 u64
  | EvInvd
  | EvInvvpidIndividualAddress u16 u64
  | EvInvvpidSingleContextExceptGlobal u16
  | EvInvvpidAllContext
  | EvInveptGlobal
  | EvLoadPdptes u64
  | EvWriteCr2 u64
  | EvReadDr nat
  | EvWriteDr nat u64
  | EvLgdt u16 u64
  | EvLidt u16 u64
  | EvEptHandleEptViolation u64

record machine =
  vmcs :: "VmcsField \<Rightarrow> u64"
  hw_msr :: "u32 \<Rightarrow> u64"
  hw_cr2 :: u64
  hw_cr3 :: u64
  hw_cr8 :: u64
  hw_dr :: "nat \<Rightarrow> u64"
  memory :: "u64 \<Rightarrow> u64 \<Rightarrow> u8"
  trace :: "event list"

text \<open>
  What the handlers read from the processor and the operating system and never change:
  the results of CPUID, the time-stamp counter, the data arriving at the I/O ports, the
  processor's number, the \<^verbatim>\<open>DirectoryTableBase\<close> of the current process, the
  contents of the \<^verbatim>\<open>ProcessorData\<close> a pointer leads to, the address of the
  \<^verbatim>\<open>GuestContext\<close> on the dispatcher's stack, and the page-table entry the EPT
  module finds for a guest-physical address.
\<close>

record host =
  cpuidex :: "u32 \<Rightarrow> u32 \<Rightarrow> u32 \<times> u32 \<times> u32 \<times> u32"
  rdtsc :: u64
  rdtscp_aux :: u32
  port_input :: "u16 \<Rightarrow> nat \<Rightarrow> u64"
  processor_number :: u32
  DirectoryTableBase :: u64
  ProcessorData_at :: "u64 \<Rightarrow> ProcessorData"
  guest_context_address :: u64
  EptGetEptPtEntry :: "u64 \<Rightarrow> u64 \<Rightarrow> u64"

definition IsX64 :: bool where
  "IsX64 = True"

definition UtilIsInBounds :: "('a::linorder) \<Rightarrow> 'a \<Rightarrow> 'a \<Rightarrow> bool" where
  "UtilIsInBounds v lo hi = (lo \<le> v \<and> v \<le> hi)"

subsection \<open>Instructions on the machine\<close>

definition log_event :: "event \<Rightarrow> machine \<Rightarrow> machine" where
  "log_event e m = m\<lparr>trace := trace m @ [e]\<rparr>"

definition vmread :: "VmcsField \<Rightarrow> machine \<Rightarrow> u64 \<times> machine" where
  "vmread f m = (vmcs m f, log_event (EvVmRead f) m)"

definition vmwrite :: "VmcsField \<Rightarrow> u64 \<Rightarrow> machine \<Rightarrow> machine" where
  "vmwrite f v m = log_event (EvVmWrite f v) (m\<lparr>vmcs := (vmcs m)(f := v)\<rparr>)"

definition rdmsr :: "u32 \<Rightarrow> machine \<Rightarrow> u64 \<times> machine" where
  "rdmsr i m = (hw_msr m i, log_event (EvReadMsr i) m)"

definition wrmsr :: "u32 \<Rightarrow> u64 \<Rightarrow> machine \<Rightarrow> machine" where
  "wrmsr i v m = log_event (EvWriteMsr i v) (m\<lparr>hw_msr := (hw_msr m)(i := v)\<rparr>)"

definition mov_to_cr3 :: "u64 \<Rightarrow> machine \<Rightarrow> machine" where
  "mov_to_cr3 v m = log_event (EvWriteCr3 v) (m\<lparr>hw_cr3 := v\<rparr>)"

definition mov_to_cr2 :: "u64 \<Rightarrow> machine \<Rightarrow> machine" where
  "mov_to_cr2 v m = log_event (EvWriteCr2 v) (m\<lparr>hw_cr2 := v\<rparr>)"

definition mov_from_dr :: "nat \<Rightarrow> machine \<Rightarrow> u64 \<times> machine" where
  "mov_from_dr n m = (hw_dr m n, log_event (EvReadDr n) m)"

definition mov_to_dr :: "nat \<Rightarrow> u64 \<Rightarrow> machine \<Rightarrow> machine" where
  "mov_to_dr n v m = log_event (EvWriteDr n v) (m\<lparr>hw_dr := (hw_dr m)(n := v)\<rparr>)"

subsection \<open>Guest memory\<close>

text \<open>
  Memory is read and written through the address-space root that is active: \<open>memory m r a\<close>
  is the byte at virtual address \<open>a\<close> under root \<open>r\<close>. Values are little-endian. Page faults
  of the host are outside the model.
\<close>

definition le_bytes :: "nat \<Rightarrow> u64 \<Rightarrow> u8 list" where
  "le_bytes n v = map (\<lambda>i. ucast (drop_bit (8 * i) v)) [0..<n]"

definition le_word :: "u8 list \<Rightarrow> u64" where
  "le_word bs = foldr (\<lambda>b acc. ucast b OR push_bit 8 acc) bs 0"

fun store_bytes :: "u64 \<Rightarrow> u64 \<Rightarrow> u8 list \<Rightarrow> (u64 \<Rightarrow> u64 \<Rightarrow> u8) \<Rightarrow> (u64 \<Rightarrow> u64 \<Rightarrow> u8)" where
  "store_bytes r a [] mem = mem"
| "store_bytes r a (b # bs) mem = store_bytes r (a + 1) bs (mem(r := (mem r)(a := b)))"

definition load_bytes :: "u64 \<Rightarrow> u64 \<Rightarrow> nat \<Rightarrow> (u64 \<Rightarrow> u64 \<Rightarrow> u8) \<Rightarrow> u8 list" where
  "load_bytes r a n mem = map (\<lambda>i. mem r (a + of_nat i)) [0..<n]"

definition guest_load :: "nat \<Rightarrow> u64 \<Rightarrow> machine \<Rightarrow> u64 \<times> machine" where
  "guest_load n a m =
     (le_word (load_bytes (hw_cr3 m) a n (memory m)), log_event (EvLoad (hw_cr3 m) a n) m)"

definition guest_store :: "nat \<Rightarrow> u64 \<Rightarrow> u64 \<Rightarrow> machine \<Rightarrow> machine" where
  "guest_store n a v m =
     log_event (EvStore (hw_cr3 m) a n)
       (m\<lparr>memory := store_bytes (hw_cr3 m) a (le_bytes n v) (memory m)\<rparr>)"

text \<open>
  The string intrinsics transfer \<open>count\<close> items of \<open>n\<close> bytes between the port and
  ascending addresses.
\<close>

definition in_string :: "host \<Rightarrow> u16 \<Rightarrow> nat \<Rightarrow> u64 \<Rightarrow> nat \<Rightarrow> machine \<Rightarrow> machine" where
  "in_string h port n a count m =
     fold (\<lambda>i m. guest_store n (a + of_nat (i * n)) (port_input h port i)
                    (log_event (EvPortIn port n) m)) [0..<count] m"

definition out_string :: "u16 \<Rightarrow> nat \<Rightarrow> u64 \<Rightarrow> nat \<Rightarrow> machine \<Rightarrow> machine" where
  "out_string port n a count m =
     fold (\<lambda>i m. log_event (EvPortOut port n (fst (guest_load n (a + of_nat (i * n)) m)))
                    (snd (guest_load n (a + of_nat (i * n)) m))) [0..<count] m"

subsection \<open>Fatal stops\<close>

datatype HyperPlatformBugCheck =
    kUnspecified | kUnexpectedVmExit | kTripleFaultVmExit | kEptMisconfigVmExit

text \<open>
  A bug check with its three parameters, the dereference of the null pointer
  \<^verbatim>\<open>VmmpSelectRegister\<close> returns for an index it does not know, and a string transfer
  through a pointer to a single register slot, which no handler asks for.
\<close>

datatype fatal =
    BugCheck HyperPlatformBugCheck u64 u64 u64
  | NullPointerDereference
  | StringTransferThroughRegisterSlot

subsection \<open>Handlers as state transformers\<close>

text \<open>
  A handler works on the \<^verbatim>\<open>GuestContext\<close> it is given a pointer to and on the
  machine. It returns a value and the new state, or stops for good.
\<close>

type_synonym state = "GuestContext \<times> machine"

type_synonym 'a vmm = "state \<Rightarrow> fatal + 'a \<times> state"

definition retv :: "'a \<Rightarrow> 'a vmm" where
  "retv x = (\<lambda>s. Inr (x, s))"

definition failv :: "fatal \<Rightarrow> 'a vmm" where
  "failv e = (\<lambda>s. Inl e)"

definition bindv :: "'a vmm \<Rightarrow> ('a \<Rightarrow> 'b vmm) \<Rightarrow> 'b vmm" where
  "bindv f g = (\<lambda>s. case f s of Inl e \<Rightarrow> Inl e | Inr (x, s') \<Rightarrow> g x s')"

definition thenv :: "unit vmm \<Rightarrow> 'b vmm \<Rightarrow> 'b vmm" where
  "thenv f g = bindv f (\<lambda>_. g)"

text \<open>Reading and changing the context; running an instruction on the machine.\<close>

definition getc :: "GuestContext vmm" where
  "getc = (\<lambda>s. Inr (fst s, s))"

definition putc :: "(GuestContext \<Rightarrow> GuestContext) \<Rightarrow> unit vmm" where
  "putc f = (\<lambda>s. Inr ((), (f (fst s), snd s)))"

definition insn :: "(machine \<Rightarrow> 'a \<times> machine) \<Rightarrow> 'a vmm" where
  "insn f = (\<lambda>s. Inr (fst (f (snd s)), (fst s, snd (f (snd s)))))"

definition act :: "(machine \<Rightarrow> machine) \<Rightarrow> unit vmm" where
  "act f = (\<lambda>s. Inr ((), (fst s, f (snd s))))"

definition UtilVmRead :: "VmcsField \<Rightarrow> u64 vmm" where
  "UtilVmRead f = insn (vmread f)"

definition UtilVmWrite :: "VmcsField \<Rightarrow> u64 \<Rightarrow> unit vmm" where
  "UtilVmWrite f v = act (vmwrite f v)"

text \<open>On the 64-bit build the 64-bit accessors of util.cpp are the plain ones.\<close>

definition UtilVmRead64 :: "VmcsField \<Rightarrow> u64 vmm" where
  "UtilVmRead64 f = UtilVmRead f"

definition UtilVmWrite64 :: "VmcsField \<Rightarrow> u64 \<Rightarrow> unit vmm" where
  "UtilVmWrite64 f v = UtilVmWrite f v"

definition UtilReadMsr64 :: "u32 \<Rightarrow> u64 vmm" where
  "UtilReadMsr64 i = insn (rdmsr i)"

definition UtilReadMsr :: "u32 \<Rightarrow> u64 vmm" where
  "UtilReadMsr i = UtilReadMsr64 i"

definition UtilWriteMsr64 :: "u32 \<Rightarrow> u64 \<Rightarrow> unit vmm" where
  "UtilWriteMsr64 i v = act (wrmsr i v)"

definition readcr3 :: "u64 vmm" where
  "readcr3 = insn (\<lambda>m. (hw_cr3 m, m))"

definition writecr3 :: "u64 \<Rightarrow> unit vmm" where
  "writecr3 v = act (mov_to_cr3 v)"

definition AsmWriteCR2 :: "u64 \<Rightarrow> unit vmm" where
  "AsmWriteCR2 v = act (mov_to_cr2 v)"

definition readdr :: "nat \<Rightarrow> u64 vmm" where
  "readdr n = insn (mov_from_dr n)"

definition writedr :: "nat \<Rightarrow> u64 \<Rightarrow> unit vmm" where
  "writedr n v = act (mov_to_dr n v)"

text \<open>
  A \<^verbatim>\<open>void *\<close> operand of an emulated instruction: a guest-virtual address, or the
  address of a slot of the trapped register file. Reading \<open>n\<close> bytes through it, and
  writing the low \<open>n\<close> bytes of a value.
\<close>

datatype pointer = GuestVa u64 | HostReg Register

definition deref_load :: "pointer \<Rightarrow> nat \<Rightarrow> u64 vmm" where
  "deref_load p n =
     (case p of
        GuestVa a \<Rightarrow> insn (guest_load n a)
      | HostReg r \<Rightarrow> bindv getc (\<lambda>c. retv (take_bit (8 * n) (reg_read r (regs c)))))"

definition deref_store :: "pointer \<Rightarrow> nat \<Rightarrow> u64 \<Rightarrow> unit vmm" where
  "deref_store p n v =
     (case p of
        GuestVa a \<Rightarrow> act (guest_store n a v)
      | HostReg r \<Rightarrow>
          putc (\<lambda>c. set_regs (reg_write r ((reg_read r (regs c) AND NOT (mask (8 * n)))
                                             OR take_bit (8 * n) v) (regs c)) c))"

subsection \<open>Bit fields of ia32\_type.h\<close>

text \<open>
  Modelled from the spec: the unions and enumerations of ia32\_type.h (flag register,
  exit qualifications, instruction information, interruption information, segment
  selector and descriptor, access rights, debug registers, exit reasons, MSR numbers) are
  not part of the sources. Their bit positions and values are the architecture's.
\<close>

definition bitfield :: "nat \<Rightarrow> nat \<Rightarrow> 'a::len word \<Rightarrow> 'a word" where
  "bitfield lo len w = take_bit len (drop_bit lo w)"

definition flag_tf :: "u64 \<Rightarrow> bool" where
  "flag_tf f = bit f 8"

definition flag_df :: "u64 \<Rightarrow> bool" where
  "flag_df f = bit f 10"

definition kHardwareException :: u32 where
  "kHardwareException = 3"

definition kSoftwareException :: u32 where
  "kSoftwareException = 6"

definition kDebugException :: u32 where
  "kDebugException = 1"

definition kBreakpointException :: u32 where
  "kBreakpointException = 3"

definition kInvalidOpcodeException :: u32 where
  "kInvalidOpcodeException = 6"

definition kGeneralProtectionException :: u32 where
  "kGeneralProtectionException = 13"

definition kPageFaultException :: u32 where
  "kPageFaultException = 14"

text \<open>\<^verbatim>\<open>VmEntryInterruptionInformationField\<close>: vector [0:7], type [8:10], error code [11], valid [31].\<close>

definition VmEntryInterruptionInformationField :: "bool \<Rightarrow> u32 \<Rightarrow> u32 \<Rightarrow> bool \<Rightarrow> u32" where
  "VmEntryInterruptionInformationField valid interruption_type vector deliver_error_code =
     take_bit 8 vector OR push_bit 8 (take_bit 3 interruption_type)
       OR push_bit 11 (of_bool deliver_error_code) OR push_bit 31 (of_bool valid)"

definition kIa32SysenterCs :: u32 where
  "kIa32SysenterCs = 0x174"

definition kIa32SysenterEsp :: u32 where
  "kIa32SysenterEsp = 0x175"

definition kIa32SysenterEip :: u32 where
  "kIa32SysenterEip = 0x176"

definition kIa32Debugctl :: u32 where
  "kIa32Debugctl = 0x1D9"

definition kIa32VmxCr0Fixed0 :: u32 where
  "kIa32VmxCr0Fixed0 = 0x486"

definition kIa32VmxCr0Fixed1 :: u32 where
  "kIa32VmxCr0Fixed1 = 0x487"

definition kIa32VmxCr4Fixed0 :: u32 where
  "kIa32VmxCr4Fixed0 = 0x488"

definition kIa32VmxCr4Fixed1 :: u32 where
  "kIa32VmxCr4Fixed1 = 0x489"

definition kIa32FsBase :: u32 where
  "kIa32FsBase = 0xC0000100"

definition kIa32GsBase :: u32 where
  "kIa32GsBase = 0xC0000101"

text \<open>The encodings of \<^verbatim>\<open>VmcsField::kIoBitmapA\<close> and \<^verbatim>\<open>VmcsField::kHostIa32PerfGlobalCtrlHigh\<close>.\<close>

definition kIoBitmapA :: u32 where
  "kIoBitmapA = 0x2000"

definition kHostIa32PerfGlobalCtrlHigh :: u32 where
  "kHostIa32PerfGlobalCtrlHigh = 0x2c05"

text \<open>\<^verbatim>\<open>CpuFeaturesEcx::fields.not_used\<close> is the top bit, [31], of the feature word.\<close>

definition CpuFeaturesEcx_not_used :: nat where
  "CpuFeaturesEcx_not_used = 31"

definition DISPATCH_LEVEL :: u8 where
  "DISPATCH_LEVEL = 2"

subsection \<open>Registers of the context\<close>

definition read_reg :: "Register \<Rightarrow> u64 vmm" where
  "read_reg r = bindv getc (\<lambda>c. retv (reg_read r (regs c)))"

definition write_reg :: "Register \<Rightarrow> u64 \<Rightarrow> unit vmm" where
  "write_reg r v = putc (\<lambda>c. set_regs (reg_write r v (regs c)) c)"

definition VmmpSelectRegister :: "nat \<Rightarrow> Register option" where
  "VmmpSelectRegister index =
     (if index = 0 then Some RegAx
      else if index = 1 then Some RegCx
      else if index = 2 then Some RegDx
      else if index = 3 then Some RegBx
      else if index = 4 then Some RegSp
      else if index = 5 then Some RegBp
      else if index = 6 then Some RegSi
      else if index = 7 then Some RegDi
      else if index = 8 then Some RegR8
      else if index = 9 then Some RegR9
      else if index = 10 then Some RegR10
      else if index = 11 then Some RegR11
      else if index = 12 then Some RegR12
      else if index = 13 then Some RegR13
      else if index = 14 then Some RegR14
      else if index = 15 then Some RegR15
      else None)"

text \<open>\<^verbatim>\<open>*register_used\<close>, read and written: fatal when the pointer is null.\<close>

definition read_selected :: "Register option \<Rightarrow> u64 vmm" where
  "read_selected register_used =
     (case register_used of
        None \<Rightarrow> failv NullPointerDereference
      | Some r \<Rightarrow> read_reg r)"

definition write_selected :: "Register option \<Rightarrow> u64 \<Rightarrow> unit vmm" where
  "write_selected register_used v =
     (case register_used of
        None \<Rightarrow> failv NullPointerDereference
      | Some r \<Rightarrow> write_reg r v)"

subsection \<open>Event injection and the advance of the instruction pointer\<close>

definition VmmpInjectInterruption :: "u32 \<Rightarrow> u32 \<Rightarrow> bool \<Rightarrow> u32 \<Rightarrow> unit vmm" where
  "VmmpInjectInterruption interruption_type vector deliver_error_code error_code =
     (let inject = VmEntryInterruptionInformationField True interruption_type vector deliver_error_code
      in thenv (UtilVmWrite kVmEntryIntrInfoField (ucast inject))
           (if deliver_error_code then UtilVmWrite kVmEntryExceptionErrorCode (ucast error_code)
            else retv ()))"

definition VmmpAdjustGuestInstructionPointer :: "unit vmm" where
  "VmmpAdjustGuestInstructionPointer =
     bindv (UtilVmRead kVmExitInstructionLen) (\<lambda>exit_inst_length.
     bindv getc (\<lambda>c.
     thenv (UtilVmWrite kGuestRip (ip c + exit_inst_length))
       (if flag_tf (flag_reg c) then
          thenv (VmmpInjectInterruption kHardwareException kDebugException False 0)
            (UtilVmWrite kVmEntryInstructionLen exit_inst_length)
        else retv ())))"

text \<open>\<^verbatim>\<open>VmxRegmentDescriptorAccessRight::fields.dpl\<close> is [5:6].\<close>

definition VmmpGetGuestCpl :: "u8 vmm" where
  "VmmpGetGuestCpl =
     bindv (UtilVmRead kGuestSsArBytes) (\<lambda>v.
     let ar = (ucast v :: u32)
     in retv (ucast (bitfield 5 2 ar)))"

definition VmmpGetKernelCr3 :: "host \<Rightarrow> u64 vmm" where
  "VmmpGetKernelCr3 h =
     (if IsX64 then
        bindv (UtilVmRead kGuestCr3) (\<lambda>guest_cr3.
        if guest_cr3 AND 1 \<noteq> 0 then retv (DirectoryTableBase h) else retv guest_cr3)
      else retv (DirectoryTableBase h))"

subsection \<open>Exceptions, CPUID, the time-stamp counter, XSETBV\<close>

definition VmmpHandleException :: "unit vmm" where
  "VmmpHandleException =
     bindv (UtilVmRead kVmExitIntrInfo) (\<lambda>info.
     let exception = (ucast info :: u32);
         interruption_type = bitfield 8 3 exception;
         vector = bitfield 0 8 exception
     in if interruption_type = kHardwareException then
          (if vector = kPageFaultException then
             bindv (UtilVmRead kVmExitIntrErrorCode) (\<lambda>code.
             let fault_code = (ucast code :: u32) in
             bindv (UtilVmRead kExitQualification) (\<lambda>fault_address.
             thenv (VmmpInjectInterruption interruption_type vector True fault_code)
               (AsmWriteCR2 fault_address)))
           else if vector = kGeneralProtectionException then
             bindv (UtilVmRead kVmExitIntrErrorCode) (\<lambda>code.
             let error_code = (ucast code :: u32) in
             VmmpInjectInterruption interruption_type vector True error_code)
           else failv (BugCheck kUnspecified 0 0 0))
        else if interruption_type = kSoftwareException then
          (if vector = kBreakpointException then
             thenv (VmmpInjectInterruption interruption_type vector False 0)
               (bindv (UtilVmRead kVmExitInstructionLen) (\<lambda>exit_inst_length.
                UtilVmWrite kVmEntryInstructionLen exit_inst_length))
           else failv (BugCheck kUnspecified 0 0 0))
        else failv (BugCheck kUnspecified 0 0 0))"

definition intrin_cpuidex :: "host \<Rightarrow> u32 \<Rightarrow> u32 \<Rightarrow> (u32 \<times> u32 \<times> u32 \<times> u32) vmm" where
  "intrin_cpuidex h function_id sub_function_id =
     insn (\<lambda>m. (cpuidex h function_id sub_function_id,
                 log_event (EvCpuid function_id sub_function_id) m))"

definition VmmpHandleCpuid :: "host \<Rightarrow> unit vmm" where
  "VmmpHandleCpuid h =
     bindv (read_reg RegAx) (\<lambda>rax.
     bindv (read_reg RegCx) (\<lambda>rcx.
     let function_id = (ucast rax :: u32);
         sub_function_id = (ucast rcx :: u32)
     in bindv (intrin_cpuidex h function_id sub_function_id)
          (\<lambda>(cpu_info0, cpu_info1, cpu_info2, cpu_info3).
        if function_id = 0 then
          thenv (write_reg RegAx 16)
         (thenv (write_reg RegBx 0x756E6547)
         (thenv (write_reg RegCx 0x6C65746E)
         (thenv (write_reg RegDx 0x49656E69)
          VmmpAdjustGuestInstructionPointer)))
        else
          (let cpu_info2 = (if function_id = 1 then unset_bit CpuFeaturesEcx_not_used cpu_info2
                            else cpu_info2)
           in thenv (write_reg RegAx (ucast cpu_info0))
             (thenv (write_reg RegBx (ucast cpu_info1))
             (thenv (write_reg RegCx (ucast cpu_info2))
             (thenv (write_reg RegDx (ucast cpu_info3))
              VmmpAdjustGuestInstructionPointer)))))))"

text \<open>
  \<^verbatim>\<open>ULARGE_INTEGER\<close> and \<^verbatim>\<open>LARGE_INTEGER\<close>: the two 32-bit halves of a 64-bit value.
  The high half of a \<^verbatim>\<open>LARGE_INTEGER\<close> is a signed \<^verbatim>\<open>LONG\<close>: stored into a 64-bit
  register it is sign-extended (\<open>scast\<close>), the other halves are zero-extended (\<open>ucast\<close>).
\<close>

definition LowPart :: "u64 \<Rightarrow> u32" where
  "LowPart v = ucast v"

definition HighPart :: "u64 \<Rightarrow> u32" where
  "HighPart v = ucast (drop_bit 32 v)"

definition QuadPart :: "u32 \<Rightarrow> u32 \<Rightarrow> u64" where
  "QuadPart lo hi = ucast lo OR push_bit 32 (ucast hi)"

definition VmmpHandleRdtsc :: "host \<Rightarrow> unit vmm" where
  "VmmpHandleRdtsc h =
     bindv (insn (\<lambda>m. (rdtsc h, log_event EvRdtsc m))) (\<lambda>tsc.
     thenv (write_reg RegDx (ucast (HighPart tsc)))
    (thenv (write_reg RegAx (ucast (LowPart tsc)))
     VmmpAdjustGuestInstructionPointer))"

definition VmmpHandleRdtscp :: "host \<Rightarrow> unit vmm" where
  "VmmpHandleRdtscp h =
     bindv (insn (\<lambda>m. ((rdtsc h, rdtscp_aux h), log_event EvRdtscp m))) (\<lambda>(tsc, tsc_aux).
     thenv (write_reg RegDx (ucast (HighPart tsc)))
    (thenv (write_reg RegAx (ucast (LowPart tsc)))
    (thenv (write_reg RegCx (ucast tsc_aux))
     VmmpAdjustGuestInstructionPointer)))"

definition VmmpHandleXsetbv :: "unit vmm" where
  "VmmpHandleXsetbv =
     bindv (read_reg RegAx) (\<lambda>rax.
     bindv (read_reg RegDx) (\<lambda>rdx.
     bindv (read_reg RegCx) (\<lambda>rcx.
     thenv (act (log_event (EvXsetbv (ucast rcx) (QuadPart (ucast rax) (ucast rdx)))))
       VmmpAdjustGuestInstructionPointer)))"

subsection \<open>RDMSR and WRMSR\<close>

text \<open>
  The switch of \<^verbatim>\<open>VmmpHandleMsrAccess\<close> over the MSR: the field of the control
  structure that stands for it, and whether there is one.
\<close>

definition msr_vmcs_field :: "u32 \<Rightarrow> VmcsField \<times> bool" where
  "msr_vmcs_field msr =
     (if msr = kIa32SysenterCs then (kGuestSysenterCs, True)
      else if msr = kIa32SysenterEsp then (kGuestSysenterEsp, True)
      else if msr = kIa32SysenterEip then (kGuestSysenterEip, True)
      else if msr = kIa32Debugctl then (kGuestIa32Debugctl, True)
      else if msr = kIa32GsBase then (kGuestGsBase, True)
      else if msr = kIa32FsBase then (kGuestFsBase, True)
      else (kVirtualProcessorId, False))"

definition VmmpHandleMsrAccess :: "bool \<Rightarrow> unit vmm" where
  "VmmpHandleMsrAccess read_access =
     bindv (read_reg RegCx) (\<lambda>rcx.
     let msr = (ucast rcx :: u32);
         is_vaild_msr =
           (if rcx \<le> 0x1FFF then True
            else if rcx \<ge> 0xC0000000 \<and> rcx \<le> 0xC0001FFF then True
            else False)
     in if \<not> is_vaild_msr \<and> rcx \<noteq> 0x400000f0 then
          thenv (VmmpInjectInterruption kHardwareException kGeneralProtectionException True 0x6A)
            VmmpAdjustGuestInstructionPointer
        else
          (let (vmcs_field, transfer_to_vmcs) = msr_vmcs_field msr;
               is_64bit_vmcs =
                 UtilIsInBounds (VmcsField_encoding vmcs_field) kIoBitmapA kHostIa32PerfGlobalCtrlHigh
           in if read_access then
                bindv (if transfer_to_vmcs then
                         (if is_64bit_vmcs then UtilVmRead64 vmcs_field
                          else UtilVmRead vmcs_field)
                       else UtilReadMsr64 msr) (\<lambda>msr_value.
                thenv (write_reg RegAx (ucast (LowPart msr_value)))
               (thenv (write_reg RegDx (scast (HighPart msr_value)))
                VmmpAdjustGuestInstructionPointer))
              else
                bindv (read_reg RegAx) (\<lambda>rax.
                bindv (read_reg RegDx) (\<lambda>rdx.
                let msr_value = QuadPart (ucast rax) (ucast rdx)
                in thenv (if transfer_to_vmcs then
                            (if is_64bit_vmcs then UtilVmWrite64 vmcs_field msr_value
                             else UtilVmWrite vmcs_field msr_value)
                          else UtilWriteMsr64 msr msr_value)
                     VmmpAdjustGuestInstructionPointer))))"

definition VmmpHandleMsrReadAccess :: "unit vmm" where
  "VmmpHandleMsrReadAccess = VmmpHandleMsrAccess True"

definition VmmpHandleMsrWriteAccess :: "unit vmm" where
  "VmmpHandleMsrWriteAccess = VmmpHandleMsrAccess False"

subsection \<open>Descriptor-table and task-register instructions\<close>

text \<open>
  Both emulators compute the operand's address with the same code: base register, scaled
  index register, segment base, displacement, and the 32-bit address size. The fields
  are those of \<^verbatim>\<open>GdtrOrIdtrInstInformation\<close> and \<^verbatim>\<open>LdtrOrTrInstInformation\<close>:
  scaling [0:1], address size [7:9], segment register [15:17], index register [18:21],
  index invalid [22], base register [23:26], base invalid [27], identity [28:29].
\<close>

definition operand_address :: "u32 \<Rightarrow> u64 \<Rightarrow> u64 vmm" where
  "operand_address instruction_info displacement =
     bindv (if \<not> bit instruction_info 27
            then read_selected (VmmpSelectRegister (unat (bitfield 23 4 instruction_info)))
            else retv 0) (\<lambda>base_value.
     bindv (if \<not> bit instruction_info 22
            then bindv (read_selected (VmmpSelectRegister (unat (bitfield 18 4 instruction_info))))
                   (\<lambda>index_value.
                    let scalling = bitfield 0 2 instruction_info
                    in retv (if scalling = 1 then index_value * 2
                             else if scalling = 2 then index_value * 4
                             else if scalling = 3 then index_value * 8
                             else index_value))
            else retv 0) (\<lambda>index_value.
     bindv (let segment_register = bitfield 15 3 instruction_info
            in if segment_register = 0 then UtilVmRead kGuestEsBase
               else if segment_register = 1 then UtilVmRead kGuestCsBase
               else if segment_register = 2 then UtilVmRead kGuestSsBase
               else if segment_register = 3 then UtilVmRead kGuestDsBase
               else if segment_register = 4 then UtilVmRead kGuestFsBase
               else if segment_register = 5 then UtilVmRead kGuestGsBase
               else retv 0) (\<lambda>segment_base.
     let operation_address = segment_base + base_value + index_value + displacement
     in retv (if bitfield 7 3 instruction_info = 1 then operation_address AND 0xFFFFFFFF
              else operation_address))))"

text \<open>
  The code segment's descriptor in the guest's table: \<^verbatim>\<open>SegmentSelector::fields.index\<close> is
  [3:15], a \<^verbatim>\<open>SegmentDescriptor\<close> has 8 bytes, its \<^verbatim>\<open>l\<close> flag is bit 53 and its type
  is [40:43].
\<close>

definition descriptor_address :: "u64 \<Rightarrow> u16 \<Rightarrow> u64" where
  "descriptor_address gdt_base ss = gdt_base + ucast (drop_bit 3 ss) * 8"

text \<open>
  SGDT and SIDT read the code segment's descriptor and store a packed \<^verbatim>\<open>Idtr\<close>
  (limit at offset 0, 64-bit base at offset 2) or \<^verbatim>\<open>Idtr32\<close> (32-bit base), the base
  first.
\<close>

definition store_descriptor_table :: "u64 \<Rightarrow> u64 \<Rightarrow> u16 \<Rightarrow> u64 \<Rightarrow> u16 \<Rightarrow> unit vmm" where
  "store_descriptor_table operation_address base limit gdt_base ss =
     bindv (deref_load (GuestVa (descriptor_address gdt_base ss)) 8) (\<lambda>segment_descriptor.
     if bit segment_descriptor 53 then
       thenv (deref_store (GuestVa (operation_address + 2)) 8 base)
         (deref_store (GuestVa operation_address) 2 (ucast limit))
     else
       thenv (deref_store (GuestVa (operation_address + 2)) 4 (ucast (ucast base :: u32)))
         (deref_store (GuestVa operation_address) 2 (ucast limit)))"

text \<open>The switch of \<^verbatim>\<open>VmmpHandleGdtrOrIdtrAccess\<close> that emulates the instruction.\<close>

definition emulate_GdtrOrIdtr :: "u32 \<Rightarrow> u64 \<Rightarrow> unit vmm" where
  "emulate_GdtrOrIdtr instruction_info operation_address =
     (let instruction_identity = bitfield 28 2 instruction_info
      in if instruction_identity = 0 then
           bindv (UtilVmRead kGuestGdtrBase) (\<lambda>gdt_base.
           bindv (UtilVmRead kGuestGdtrLimit) (\<lambda>lim.
           let gdt_limit = (ucast lim :: u16) in
           bindv (UtilVmRead kGuestCsSelector) (\<lambda>sel.
           let ss = (ucast sel :: u16) in
           store_descriptor_table operation_address gdt_base gdt_limit gdt_base ss)))
         else if instruction_identity = 1 then
           bindv (UtilVmRead kGuestIdtrBase) (\<lambda>idt_base.
           bindv (UtilVmRead kGuestIdtrLimit) (\<lambda>lim.
           let idt_limit = (ucast lim :: u16) in
           bindv (UtilVmRead kGuestGdtrBase) (\<lambda>gdt_base.
           bindv (UtilVmRead kGuestCsSelector) (\<lambda>sel.
           let ss = (ucast sel :: u16) in
           store_descriptor_table operation_address idt_base idt_limit gdt_base ss))))
         else if instruction_identity = 2 then
           bindv (deref_load (GuestVa (operation_address + 2)) 8) (\<lambda>base.
           thenv (UtilVmWrite kGuestGdtrBase base)
          (bindv (deref_load (GuestVa operation_address) 2) (\<lambda>limit.
           UtilVmWrite kGuestGdtrLimit limit)))
         else
           bindv (deref_load (GuestVa (operation_address + 2)) 8) (\<lambda>base.
           thenv (UtilVmWrite kGuestIdtrBase base)
          (bindv (deref_load (GuestVa operation_address) 2) (\<lambda>limit.
           UtilVmWrite kGuestIdtrLimit limit))))"

definition VmmpHandleGdtrOrIdtrAccess :: "host \<Rightarrow> unit vmm" where
  "VmmpHandleGdtrOrIdtrAccess h =
     bindv (UtilVmRead kVmxInstructionInfo) (\<lambda>info.
     let instruction_info = (ucast info :: u32) in
     bindv (UtilVmRead kExitQualification) (\<lambda>displacement.
     bindv (operand_address instruction_info displacement) (\<lambda>operation_address.
     bindv (VmmpGetKernelCr3 h) (\<lambda>guest_cr3.
     bindv readcr3 (\<lambda>vmm_cr3.
     thenv (writecr3 guest_cr3)
    (thenv (emulate_GdtrOrIdtr instruction_info operation_address)
    (thenv (writecr3 vmm_cr3)
     VmmpAdjustGuestInstructionPointer)))))))"

text \<open>
  In the register form of LLDT, LTR, SLDT and STR the operand is a slot of the register
  file (register1, [3:6], chosen by register access, [10]); a null pointer from
  \<^verbatim>\<open>VmmpSelectRegister\<close> is cast to the address 0.
\<close>

definition LdtrOrTr_operand :: "u32 \<Rightarrow> u64 \<Rightarrow> pointer vmm" where
  "LdtrOrTr_operand instruction_info displacement =
     (if bit instruction_info 10 then
        retv (case VmmpSelectRegister (unat (bitfield 3 4 instruction_info)) of
                None \<Rightarrow> GuestVa 0
              | Some r \<Rightarrow> HostReg r)
      else
        bindv (operand_address instruction_info displacement) (\<lambda>operation_address.
        retv (GuestVa operation_address)))"

text \<open>The switch of \<^verbatim>\<open>VmmpHandleLdtrOrTrAccess\<close> that emulates the instruction.\<close>

definition emulate_LdtrOrTr :: "u32 \<Rightarrow> pointer \<Rightarrow> unit vmm" where
  "emulate_LdtrOrTr instruction_info selector =
     (let instruction_identity = bitfield 28 2 instruction_info
      in if instruction_identity = 0 then
           bindv (UtilVmRead kGuestLdtrSelector) (\<lambda>v.
           deref_store selector 2 (ucast (ucast v :: u16)))
         else if instruction_identity = 1 then
           bindv (UtilVmRead kGuestTrSelector) (\<lambda>v.
           deref_store selector 2 (ucast (ucast v :: u16)))
         else if instruction_identity = 2 then
           bindv (deref_load selector 2) (\<lambda>v.
           UtilVmWrite kGuestLdtrSelector v)
         else
           bindv (deref_load selector 2) (\<lambda>v.
           thenv (UtilVmWrite kGuestTrSelector v)
          (bindv (deref_load selector 2) (\<lambda>v.
           let ss = (ucast v :: u16) in
           bindv (UtilVmRead kGuestGdtrBase) (\<lambda>gdt_base.
           let sd = descriptor_address gdt_base ss in
           bindv (deref_load (GuestVa sd) 8) (\<lambda>d.
           deref_store (GuestVa sd) 8 (d OR push_bit 41 1)))))))"

definition VmmpHandleLdtrOrTrAccess :: "host \<Rightarrow> unit vmm" where
  "VmmpHandleLdtrOrTrAccess h =
     bindv (UtilVmRead kVmxInstructionInfo) (\<lambda>info.
     let instruction_info = (ucast info :: u32) in
     bindv (UtilVmRead kExitQualification) (\<lambda>displacement.
     bindv (LdtrOrTr_operand instruction_info displacement) (\<lambda>selector.
     bindv (VmmpGetKernelCr3 h) (\<lambda>guest_cr3.
     bindv readcr3 (\<lambda>vmm_cr3.
     thenv (writecr3 guest_cr3)
    (thenv (emulate_LdtrOrTr instruction_info selector)
    (thenv (writecr3 vmm_cr3)
     VmmpAdjustGuestInstructionPointer)))))))"

subsection \<open>Debug registers\<close>

text \<open>
  \<^verbatim>\<open>MovDrQualification\<close>: debug register [0:2], direction [4] (0 is the move to the
  debug register), general-purpose register [8:11]. \<^verbatim>\<open>Cr4::fields.de\<close> is bit 3,
  \<^verbatim>\<open>Dr7::fields.gd\<close> and \<^verbatim>\<open>Dr6::fields.bd\<close> are bit 13. In \<^verbatim>\<open>Dr6\<close> reserved1 is
  [4:11], reserved2 is [12] and reserved3 is [17:31]; in \<^verbatim>\<open>Dr7\<close> reserved1 is [10],
  reserved2 is [12] and reserved3 is [14:15].
\<close>

definition Dr6_enforce :: "u64 \<Rightarrow> u64" where
  "Dr6_enforce v = ((v OR push_bit 4 (mask 8)) AND NOT (push_bit 12 1)) OR push_bit 17 (mask 15)"

definition Dr7_enforce :: "u64 \<Rightarrow> u64" where
  "Dr7_enforce v = ((v OR push_bit 10 1) AND NOT (push_bit 12 1)) AND NOT (push_bit 14 (mask 2))"

text \<open>The two switches of \<^verbatim>\<open>VmmpHandleDrAccess\<close> that move to and from a debug register.\<close>

definition move_to_dr :: "nat \<Rightarrow> Register option \<Rightarrow> unit vmm" where
  "move_to_dr debugl_register register_used =
     (if debugl_register = 0 then bindv (read_selected register_used) (\<lambda>v. writedr 0 v)
      else if debugl_register = 1 then bindv (read_selected register_used) (\<lambda>v. writedr 1 v)
      else if debugl_register = 2 then bindv (read_selected register_used) (\<lambda>v. writedr 2 v)
      else if debugl_register = 3 then bindv (read_selected register_used) (\<lambda>v. writedr 3 v)
      else if debugl_register = 6 then
        bindv (read_selected register_used) (\<lambda>v. writedr 6 (Dr6_enforce v))
      else if debugl_register = 7 then
        bindv (read_selected register_used) (\<lambda>v. UtilVmWrite kGuestDr7 (Dr7_enforce v))
      else retv ())"

definition move_from_dr :: "nat \<Rightarrow> Register option \<Rightarrow> unit vmm" where
  "move_from_dr debugl_register register_used =
     (if debugl_register = 0 then bindv (readdr 0) (\<lambda>v. write_selected register_used v)
      else if debugl_register = 1 then bindv (readdr 1) (\<lambda>v. write_selected register_used v)
      else if debugl_register = 2 then bindv (readdr 2) (\<lambda>v. write_selected register_used v)
      else if debugl_register = 3 then bindv (readdr 3) (\<lambda>v. write_selected register_used v)
      else if debugl_register = 6 then bindv (readdr 6) (\<lambda>v. write_selected register_used v)
      else if debugl_register = 7 then
        bindv (UtilVmRead kGuestDr7) (\<lambda>v. write_selected register_used v)
      else retv ())"

definition VmmpHandleDrAccess :: "unit vmm" where
  "VmmpHandleDrAccess =
     bindv VmmpGetGuestCpl (\<lambda>cpl.
     if cpl \<noteq> 0 then
       VmmpInjectInterruption kHardwareException kGeneralProtectionException True 0
     else
       bindv (UtilVmRead kExitQualification) (\<lambda>exit_qualification.
       let debugl_register = unat (bitfield 0 3 exit_qualification) in
       bindv (if debugl_register = 4 \<or> debugl_register = 5
              then bindv (UtilVmRead kGuestCr4) (\<lambda>guest_cr4. retv (bit guest_cr4 3))
              else retv False) (\<lambda>undefined_opcode.
       if undefined_opcode then
         VmmpInjectInterruption kHardwareException kInvalidOpcodeException False 0
       else
         (let debugl_register =
                (if debugl_register = 4 then 6
                 else if debugl_register = 5 then 7
                 else debugl_register)
          in bindv (UtilVmRead kGuestDr7) (\<lambda>guest_dr7.
             if bit guest_dr7 13 then
               bindv (readdr 6) (\<lambda>guest_dr6.
               let guest_dr6 = unset_bit 0 guest_dr6;
                   guest_dr6 = unset_bit 1 guest_dr6;
                   guest_dr6 = unset_bit 2 guest_dr6;
                   guest_dr6 = unset_bit 3 guest_dr6;
                   guest_dr6 = set_bit 13 guest_dr6
               in thenv (writedr 6 guest_dr6)
                 (thenv (VmmpInjectInterruption kHardwareException kDebugException False 0)
                   (UtilVmWrite kGuestDr7 (unset_bit 13 guest_dr7))))
             else
               (let register_used =
                      VmmpSelectRegister (unat (bitfield 8 4 exit_qualification));
                    move_to = (bitfield 4 1 exit_qualification = 0)
                in bindv (if IsX64 \<and> move_to
                          then bindv (read_selected register_used) (\<lambda>value64.
                                 retv ((debugl_register = 6 \<or> debugl_register = 7)
                                        \<and> drop_bit 32 value64 \<noteq> 0))
                          else retv False) (\<lambda>reserved_bits_set.
                   if reserved_bits_set then
                     VmmpInjectInterruption kHardwareException kGeneralProtectionException True 0
                   else
                     thenv (if move_to then move_to_dr debugl_register register_used
                            else move_from_dr debugl_register register_used)
                       VmmpAdjustGuestInstructionPointer)))))))"

subsection \<open>I/O ports\<close>

text \<open>
  The four switches of \<^verbatim>\<open>VmmpIoWrapper\<close> over the size of the access, each with its
  fatal default.
\<close>

definition io_transfer :: "host \<Rightarrow> bool \<Rightarrow> bool \<Rightarrow> u64 \<Rightarrow> u16 \<Rightarrow> pointer \<Rightarrow> u32 \<Rightarrow> unit vmm" where
  "io_transfer h to_memory is_string size_of_access port address count =
     (let n = unat size_of_access
      in if to_memory then
           (if is_string then
              (if size_of_access = 1 \<or> size_of_access = 2 \<or> size_of_access = 4 then
                 (case address of
                    GuestVa a \<Rightarrow> act (in_string h port n a (unat count))
                  | HostReg r \<Rightarrow> failv StringTransferThroughRegisterSlot)
               else failv (BugCheck kUnspecified 0 0 0))
            else
              (if size_of_access = 1 \<or> size_of_access = 2 \<or> size_of_access = 4 then
                 thenv (act (log_event (EvPortIn port n)))
                   (deref_store address n (port_input h port 0))
               else failv (BugCheck kUnspecified 0 0 0)))
         else
           (if is_string then
              (if size_of_access = 1 \<or> size_of_access = 2 \<or> size_of_access = 4 then
                 (case address of
                    GuestVa a \<Rightarrow> act (out_string port n a (unat count))
                  | HostReg r \<Rightarrow> failv StringTransferThroughRegisterSlot)
               else failv (BugCheck kUnspecified 0 0 0))
            else
              (if size_of_access = 1 \<or> size_of_access = 2 \<or> size_of_access = 4 then
                 bindv (deref_load address n) (\<lambda>v. act (log_event (EvPortOut port n v)))
               else failv (BugCheck kUnspecified 0 0 0))))"

definition VmmpIoWrapper :: "host \<Rightarrow> bool \<Rightarrow> bool \<Rightarrow> u64 \<Rightarrow> u16 \<Rightarrow> pointer \<Rightarrow> u32 \<Rightarrow> unit vmm" where
  "VmmpIoWrapper h to_memory is_string size_of_access port address count =
     bindv (VmmpGetKernelCr3 h) (\<lambda>guest_cr3.
     bindv readcr3 (\<lambda>vmm_cr3.
     thenv (writecr3 guest_cr3)
    (thenv (io_transfer h to_memory is_string size_of_access port address count)
     (writecr3 vmm_cr3))))"

text \<open>
  \<^verbatim>\<open>IoInstQualification\<close>: size of access [0:2] (0, 1 and 3 are one, two and four
  bytes), direction [3], string instruction [4], REP prefix [5], port number [16:31].
\<close>

definition VmmpHandleIoPort :: "host \<Rightarrow> unit vmm" where
  "VmmpHandleIoPort h =
     bindv (UtilVmRead kExitQualification) (\<lambda>exit_qualification.
     bindv getc (\<lambda>c.
     let is_in = (bitfield 3 1 exit_qualification = 1);
         is_string = (bitfield 4 1 exit_qualification = 1);
         is_rep = (bitfield 5 1 exit_qualification = 1);
         port = (ucast (bitfield 16 16 exit_qualification) :: u16);
         string_address = (if is_in then di (regs c) else si (regs c));
         count = (ucast (if is_rep then cx (regs c) else 1) :: u32);
         address = (if is_string then GuestVa string_address else HostReg RegAx);
         encoded_size = bitfield 0 3 exit_qualification;
         size_of_access =
           (if encoded_size = 0 then 1
            else if encoded_size = 1 then 2
            else if encoded_size = 3 then 4
            else 0)
     in thenv (VmmpIoWrapper h is_in is_string size_of_access port address count)
       (thenv (if is_string then
                 bindv (read_reg RegCx) (\<lambda>rcx.
                 let update_count = (if is_rep then rcx else 1);
                     update_size = update_count * size_of_access;
                     update_register = (if is_in then RegDi else RegSi)
                 in thenv (if flag_df (flag_reg c) then
                             bindv (read_reg update_register) (\<lambda>v.
                             write_reg update_register (v - update_size))
                           else
                             bindv (read_reg update_register) (\<lambda>v.
                             write_reg update_register (v + update_size)))
                      (if is_rep then write_reg RegCx 0 else retv ()))
               else retv ())
          VmmpAdjustGuestInstructionPointer)))"

subsection \<open>Control registers\<close>

text \<open>
  util.cpp is not part of the sources: \<^verbatim>\<open>UtilIsX86Pae\<close> is false on the 64-bit build, and
  the invalidations and the reload of the page-directory pointers act on the
  processor's caches only.
\<close>

definition UtilIsX86Pae :: bool where
  "UtilIsX86Pae = False"

definition UtilLoadPdptes :: "u64 \<Rightarrow> unit vmm" where
  "UtilLoadPdptes v = act (log_event (EvLoadPdptes v))"

definition UtilInvvpidSingleContextExceptGlobal :: "u16 \<Rightarrow> unit vmm" where
  "UtilInvvpidSingleContextExceptGlobal vpid =
     act (log_event (EvInvvpidSingleContextExceptGlobal vpid))"

definition UtilInvvpidIndividualAddress :: "u16 \<Rightarrow> u64 \<Rightarrow> unit vmm" where
  "UtilInvvpidIndividualAddress vpid a = act (log_event (EvInvvpidIndividualAddress vpid a))"

text \<open>
  \<^verbatim>\<open>MovCrQualification\<close>: control register [0:3], access type [4:5] (move to,
  move from, CLTS, LMSW), general-purpose register [8:11].
\<close>

definition VmmpHandleCrAccess :: "host \<Rightarrow> unit vmm" where
  "VmmpHandleCrAccess h =
     bindv (UtilVmRead kExitQualification) (\<lambda>exit_qualification.
     let register_used = VmmpSelectRegister (unat (bitfield 8 4 exit_qualification));
         access_type = bitfield 4 2 exit_qualification;
         control_register = unat (bitfield 0 4 exit_qualification)
     in thenv
          (if access_type = 0 then
             (if control_register = 0 then
                thenv (if UtilIsX86Pae
                       then bindv (UtilVmRead kGuestCr3) (\<lambda>v. UtilLoadPdptes v)
                       else retv ())
               (bindv (UtilReadMsr kIa32VmxCr0Fixed0) (\<lambda>cr0_fixed0.
                bindv (UtilReadMsr kIa32VmxCr0Fixed1) (\<lambda>cr0_fixed1.
                bindv (read_selected register_used) (\<lambda>cr0.
                let cr0 = cr0 AND cr0_fixed1;
                    cr0 = cr0 OR cr0_fixed0
                in thenv (UtilVmWrite kGuestCr0 cr0)
                     (UtilVmWrite kCr0ReadShadow cr0)))))
              else if control_register = 3 then
                thenv (if UtilIsX86Pae
                       then bindv (VmmpGetKernelCr3 h) (\<lambda>v. UtilLoadPdptes v)
                       else retv ())
               (thenv (UtilInvvpidSingleContextExceptGlobal (ucast (processor_number h + 1)))
               (bindv (read_selected register_used) (\<lambda>v.
                UtilVmWrite kGuestCr3 (v AND NOT (push_bit 63 1)))))
              else if control_register = 4 then
                thenv (if UtilIsX86Pae
                       then bindv (UtilVmRead kGuestCr3) (\<lambda>v. UtilLoadPdptes v)
                       else retv ())
               (thenv (act (log_event EvInvvpidAllContext))
               (bindv (UtilReadMsr kIa32VmxCr4Fixed0) (\<lambda>cr4_fixed0.
                bindv (UtilReadMsr kIa32VmxCr4Fixed1) (\<lambda>cr4_fixed1.
                bindv (read_selected register_used) (\<lambda>cr4.
                let cr4 = cr4 AND cr4_fixed1;
                    cr4 = cr4 OR cr4_fixed0
                in thenv (UtilVmWrite kGuestCr4 cr4)
                     (UtilVmWrite kCr4ReadShadow cr4))))))
              else if control_register = 8 then
                bindv (read_selected register_used) (\<lambda>v.
                putc (\<lambda>c. c\<lparr>cr8 := v\<rparr>))
              else failv (BugCheck kUnspecified 0 0 0))
           else if access_type = 1 then
             (if control_register = 3 then
                bindv (UtilVmRead kGuestCr3) (\<lambda>v. write_selected register_used v)
              else if control_register = 8 then
                bindv getc (\<lambda>c. write_selected register_used (cr8 c))
              else failv (BugCheck kUnspecified 0 0 0))
           else retv ())
          VmmpAdjustGuestInstructionPointer)"

subsection \<open>VMX instructions and hypercalls\<close>

text \<open>
  \<^verbatim>\<open>FlagRegister\<close>: cf, pf, af, zf, sf and of are bits 0, 2, 4, 6, 7 and 11. Both VMCALL
  paths that succeed clear all six.
\<close>

definition clear_status_flags :: "u64 \<Rightarrow> u64" where
  "clear_status_flags f =
     (let f = unset_bit 0 f;
          f = unset_bit 2 f;
          f = unset_bit 4 f;
          f = unset_bit 6 f;
          f = unset_bit 7 f;
          f = unset_bit 11 f;
          f = unset_bit 0 f;
          f = unset_bit 6 f
      in f)"

definition error_without_status :: "u64 \<Rightarrow> u64" where
  "error_without_status f =
     (let f = set_bit 0 f;
          f = unset_bit 2 f;
          f = unset_bit 4 f;
          f = unset_bit 6 f;
          f = unset_bit 7 f;
          f = unset_bit 11 f
      in f)"

definition VmmpHandleVmx :: "unit vmm" where
  "VmmpHandleVmx =
     thenv (putc (\<lambda>c. c\<lparr>flag_reg := error_without_status (flag_reg c)\<rparr>))
    (bindv getc (\<lambda>c.
     thenv (UtilVmWrite kGuestRflags (flag_reg c))
       VmmpAdjustGuestInstructionPointer))"

definition VmmpIndicateSuccessfulVmcall :: "unit vmm" where
  "VmmpIndicateSuccessfulVmcall =
     thenv (putc (\<lambda>c. c\<lparr>flag_reg := clear_status_flags (flag_reg c)\<rparr>))
    (bindv getc (\<lambda>c.
     thenv (UtilVmWrite kGuestRflags (flag_reg c))
       VmmpAdjustGuestInstructionPointer))"

definition VmmpIndicateUnsuccessfulVmcall :: "unit vmm" where
  "VmmpIndicateUnsuccessfulVmcall =
     thenv (VmmpInjectInterruption kHardwareException kInvalidOpcodeException False 0)
    (bindv (UtilVmRead kVmExitInstructionLen) (\<lambda>exit_inst_length.
     UtilVmWrite kVmEntryInstructionLen exit_inst_length))"

text \<open>
  The termination path writes through the caller's pointer and leaves the return address,
  the stack pointer and the flags in the registers that survive VMXOFF.
\<close>

definition VmmpHandleVmCallTermination :: "u64 \<Rightarrow> unit vmm" where
  "VmmpHandleVmCallTermination context_pointer =
     bindv (UtilVmRead kGuestGdtrLimit) (\<lambda>gdt_limit.
     bindv (UtilVmRead kGuestGdtrBase) (\<lambda>gdt_base.
     bindv (UtilVmRead kGuestIdtrLimit) (\<lambda>idt_limit.
     bindv (UtilVmRead kGuestIdtrBase) (\<lambda>idt_base.
     thenv (act (log_event (EvLgdt (ucast gdt_limit) gdt_base)))
    (thenv (act (log_event (EvLidt (ucast idt_limit) idt_base)))
    (bindv getc (\<lambda>c.
     thenv (deref_store (GuestVa context_pointer) 8 (processor_data (stack c)))
    (bindv (UtilVmRead kVmExitInstructionLen) (\<lambda>exit_instruction_length.
     let return_address = ip c + exit_instruction_length
     in thenv (putc (\<lambda>c. c\<lparr>flag_reg := clear_status_flags (flag_reg c)\<rparr>))
       (thenv (write_reg RegCx return_address)
       (thenv (bindv (read_reg RegSp) (\<lambda>v. write_reg RegDx v))
       (thenv (bindv getc (\<lambda>c. write_reg RegAx (flag_reg c)))
        (putc (\<lambda>c. c\<lparr>vm_continue := False\<rparr>))))))))))))))"

text \<open>
  The enumeration \<^verbatim>\<open>HypercallNumber\<close> of util.h is not part of the sources: its
  five values are parameters of the model.
\<close>

record HypercallNumber =
  kMinimumHypercallNumber :: u32
  kMaximumHypercallNumber :: u32
  kTerminateVmm :: u32
  kPingVmm :: u32
  kGetSharedProcessorData :: u32

definition VmmpHandleVmCall :: "HypercallNumber \<Rightarrow> host \<Rightarrow> unit vmm" where
  "VmmpHandleVmCall hn h =
     bindv getc (\<lambda>c.
     let hypercall_number = (ucast (cx (regs c)) :: u32);
         context_pointer = dx (regs c)
     in thenv (if \<not> UtilIsInBounds hypercall_number
                       (kMinimumHypercallNumber hn) (kMaximumHypercallNumber hn)
               then VmmpIndicateUnsuccessfulVmcall else retv ())
          (if hypercall_number = kTerminateVmm hn then
             bindv VmmpGetGuestCpl (\<lambda>cpl.
             if cpl = 0 then VmmpHandleVmCallTermination context_pointer
             else VmmpIndicateUnsuccessfulVmcall)
           else if hypercall_number = kPingVmm hn then
             VmmpIndicateSuccessfulVmcall
           else if hypercall_number = kGetSharedProcessorData hn then
             thenv (deref_store (GuestVa context_pointer) 8
                      (shared_data (ProcessorData_at h (processor_data (stack c)))))
               VmmpIndicateSuccessfulVmcall
           else retv ()))"

subsection \<open>Cache and TLB invalidation, EPT\<close>

definition VmmpHandleInvalidateInternalCaches :: "unit vmm" where
  "VmmpHandleInvalidateInternalCaches =
     thenv (act (log_event EvInvd)) VmmpAdjustGuestInstructionPointer"

definition VmmpHandleInvalidateTlbEntry :: "host \<Rightarrow> unit vmm" where
  "VmmpHandleInvalidateTlbEntry h =
     bindv (UtilVmRead kExitQualification) (\<lambda>invalidate_address.
     thenv (UtilInvvpidIndividualAddress (ucast (processor_number h + 1)) invalidate_address)
       VmmpAdjustGuestInstructionPointer)"

text \<open>
  Modelled from the spec: ept.cpp is not part of the sources. The collaborator that
  resolves an EPT violation takes the processor's EPT state, may change the mappings it
  owns and returns nothing; the model records the call.
\<close>

definition EptHandleEptViolation :: "u64 \<Rightarrow> unit vmm" where
  "EptHandleEptViolation ept = act (log_event (EvEptHandleEptViolation ept))"

definition VmmpHandleEptViolation :: "host \<Rightarrow> unit vmm" where
  "VmmpHandleEptViolation h =
     bindv getc (\<lambda>c.
     let pd = ProcessorData_at h (processor_data (stack c))
     in EptHandleEptViolation (ept_data pd))"

definition VmmpHandleEptMisconfig :: "host \<Rightarrow> unit vmm" where
  "VmmpHandleEptMisconfig h =
     bindv (UtilVmRead kGuestPhysicalAddress) (\<lambda>fault_address.
     bindv getc (\<lambda>c.
     let ept_pt_entry =
           EptGetEptPtEntry h (ept_data (ProcessorData_at h (processor_data (stack c)))) fault_address
     in failv (BugCheck kEptMisconfigVmExit fault_address ept_pt_entry 0)))"

subsection \<open>Fatal exits\<close>

definition VmmpHandleTripleFault :: "host \<Rightarrow> unit vmm" where
  "VmmpHandleTripleFault h =
     bindv getc (\<lambda>c. failv (BugCheck kTripleFaultVmExit (guest_context_address h) (ip c) 0))"

definition VmmpHandleUnexpectedExit :: "host \<Rightarrow> unit vmm" where
  "VmmpHandleUnexpectedExit h =
     bindv (UtilVmRead kExitQualification) (\<lambda>qualification.
     bindv getc (\<lambda>c.
     failv (BugCheck kUnexpectedVmExit (guest_context_address h) (ip c) qualification)))"

definition VmmpHandleMonitorTrap :: "host \<Rightarrow> unit vmm" where
  "VmmpHandleMonitorTrap h =
     bindv getc (\<lambda>c. failv (BugCheck kUnexpectedVmExit (guest_context_address h) (ip c) 0))"

subsection \<open>The dispatcher\<close>

text \<open>
  \<^verbatim>\<open>VmxExitReason\<close>, with the architecture's numbers; \<open>kOtherExitReason\<close> stands for every
  number the switch of \<^verbatim>\<open>VmmpHandleVmExit\<close> sends to its default branch.
\<close>

datatype VmxExitReason =
    kExceptionOrNmi | kTripleFault | kCpuid | kInvd | kInvlpg | kRdtsc | kVmcall
  | kVmclear | kVmlaunch | kVmptrld | kVmptrst | kVmread | kVmresume | kVmwrite | kVmoff | kVmon
  | kCrAccess | kDrAccess | kIoInstruction | kMsrRead | kMsrWrite | kMonitorTrapFlag
  | kGdtrOrIdtrAccess | kLdtrOrTrAccess | kEptViolation | kEptMisconfig | kInvept | kRdtscp
  | kInvvpid | kXsetbv | kOtherExitReason

definition VmxExitReason_of :: "u16 \<Rightarrow> VmxExitReason" where
  "VmxExitReason_of r =
     (if r = 0 then kExceptionOrNmi
      else if r = 2 then kTripleFault
      else if r = 10 then kCpuid
      else if r = 13 then kInvd
      else if r = 14 then kInvlpg
      else if r = 16 then kRdtsc
      else if r = 18 then kVmcall
      else if r = 19 then kVmclear
      else if r = 20 then kVmlaunch
      else if r = 21 then kVmptrld
      else if r = 22 then kVmptrst
      else if r = 23 then kVmread
      else if r = 24 then kVmresume
      else if r = 25 then kVmwrite
      else if r = 26 then kVmoff
      else if r = 27 then kVmon
      else if r = 28 then kCrAccess
      else if r = 29 then kDrAccess
      else if r = 30 then kIoInstruction
      else if r = 31 then kMsrRead
      else if r = 32 then kMsrWrite
      else if r = 37 then kMonitorTrapFlag
      else if r = 46 then kGdtrOrIdtrAccess
      else if r = 47 then kLdtrOrTrAccess
      else if r = 48 then kEptViolation
      else if r = 49 then kEptMisconfig
      else if r = 50 then kInvept
      else if r = 51 then kRdtscp
      else if r = 53 then kInvvpid
      else if r = 55 then kXsetbv
      else kOtherExitReason)"

text \<open>The switch of \<^verbatim>\<open>VmmpHandleVmExit\<close>.\<close>

definition dispatch :: "HypercallNumber \<Rightarrow> host \<Rightarrow> VmxExitReason \<Rightarrow> unit vmm" where
  "dispatch hn h reason =
     (case reason of
        kExceptionOrNmi \<Rightarrow> VmmpHandleException
      | kTripleFault \<Rightarrow> VmmpHandleTripleFault h
      | kCpuid \<Rightarrow> VmmpHandleCpuid h
      | kInvd \<Rightarrow> VmmpHandleInvalidateInternalCaches
      | kInvlpg \<Rightarrow> VmmpHandleInvalidateTlbEntry h
      | kRdtsc \<Rightarrow> VmmpHandleRdtsc h
      | kCrAccess \<Rightarrow> VmmpHandleCrAccess h
      | kDrAccess \<Rightarrow> VmmpHandleDrAccess
      | kIoInstruction \<Rightarrow> VmmpHandleIoPort h
      | kMsrRead \<Rightarrow> VmmpHandleMsrReadAccess
      | kMsrWrite \<Rightarrow> VmmpHandleMsrWriteAccess
      | kMonitorTrapFlag \<Rightarrow> VmmpHandleMonitorTrap h
      | kGdtrOrIdtrAccess \<Rightarrow> VmmpHandleGdtrOrIdtrAccess h
      | kLdtrOrTrAccess \<Rightarrow> VmmpHandleLdtrOrTrAccess h
      | kEptViolation \<Rightarrow> VmmpHandleEptViolation h
      | kEptMisconfig \<Rightarrow> VmmpHandleEptMisconfig h
      | kVmcall \<Rightarrow> VmmpHandleVmCall hn h
      | kVmclear \<Rightarrow> VmmpHandleVmx
      | kVmlaunch \<Rightarrow> VmmpHandleVmx
      | kVmptrld \<Rightarrow> VmmpHandleVmx
      | kVmptrst \<Rightarrow> VmmpHandleVmx
      | kVmread \<Rightarrow> VmmpHandleVmx
      | kVmresume \<Rightarrow> VmmpHandleVmx
      | kVmwrite \<Rightarrow> VmmpHandleVmx
      | kVmoff \<Rightarrow> VmmpHandleVmx
      | kVmon \<Rightarrow> VmmpHandleVmx
      | kInvept \<Rightarrow> VmmpHandleVmx
      | kInvvpid \<Rightarrow> VmmpHandleVmx
      | kRdtscp \<Rightarrow> VmmpHandleRdtscp h
      | kXsetbv \<Rightarrow> VmmpHandleXsetbv
      | kOtherExitReason \<Rightarrow> VmmpHandleUnexpectedExit h)"

text \<open>
  \<^verbatim>\<open>kVmmpEnableRecordVmExit\<close> is the constant false: the history ring is never
  written. The reason is the low 16 bits of the exit-reason field.
\<close>

definition VmmpHandleVmExit :: "HypercallNumber \<Rightarrow> host \<Rightarrow> unit vmm" where
  "VmmpHandleVmExit hn h =
     bindv (UtilVmRead kVmExitReason) (\<lambda>v.
     let exit_reason = (ucast v :: u32);
         reason = (ucast exit_reason :: u16)
     in dispatch hn h (VmxExitReason_of reason))"

text \<open>
  On the 64-bit build the interrupt request level is CR8, as the source notes where it
  saves the two: the kernel's \<^verbatim>\<open>KeGetCurrentIrql\<close> reads CR8 as a \<^verbatim>\<open>KIRQL\<close>, a byte,
  and \<^verbatim>\<open>KeRaiseIrqlToDpcLevel\<close> and \<^verbatim>\<open>KeLowerIrql\<close> write it, as \<^verbatim>\<open>__writecr8\<close> does.
  The model stores the value written; a value with a bit above bit 3 set, which the
  processor refuses, is not told apart.
\<close>

definition KeGetCurrentIrql :: "machine \<Rightarrow> u8" where
  "KeGetCurrentIrql m = ucast (hw_cr8 m)"

definition writecr8 :: "u64 \<Rightarrow> machine \<Rightarrow> machine" where
  "writecr8 v m = m\<lparr>hw_cr8 := v\<rparr>"

definition KeRaiseIrqlToDpcLevel :: "machine \<Rightarrow> machine" where
  "KeRaiseIrqlToDpcLevel m = writecr8 (ucast DISPATCH_LEVEL) m"

definition KeLowerIrql :: "u8 \<Rightarrow> machine \<Rightarrow> machine" where
  "KeLowerIrql v m = writecr8 (ucast v) m"

text \<open>
  The first part of \<^verbatim>\<open>VmmVmExitHandler\<close>: it saves the level and CR8, raises the level,
  and captures the guest's state into the context.
\<close>

definition enter_exit :: "VmmInitialStack \<Rightarrow> machine \<Rightarrow> state" where
  "enter_exit stk m =
     (let guest_irql = KeGetCurrentIrql m;
          guest_cr8 = (if IsX64 then hw_cr8 m else 0);
          m = (if guest_irql < DISPATCH_LEVEL then KeRaiseIrqlToDpcLevel m else m);
          (rflags, m) = vmread kGuestRflags m;
          (rip, m) = vmread kGuestRip m;
          c = \<lparr>stack = stk, flag_reg = rflags, ip = rip, cr8 = guest_cr8, irql = guest_irql,
               vm_continue = True\<rparr>;
          (rsp, m) = vmread kGuestRsp m;
          c = set_regs ((regs c)\<lparr>sp := rsp\<rparr>) c;
          c = c\<lparr>stack := (stack c)\<lparr>trap_frame_sp := sp (regs c)\<rparr>\<rparr>;
          c = c\<lparr>stack := (stack c)\<lparr>trap_frame_ip := ip c\<rparr>\<rparr>
      in (c, m))"

text \<open>
  The last part: the invalidation when the guest is not to continue, the level lowered
  to the saved one, CR8 written from the context.
\<close>

definition leave_exit :: "state \<Rightarrow> bool \<times> VmmInitialStack \<times> machine" where
  "leave_exit s =
     (let c = fst s;
          m = snd s;
          m = (if \<not> vm_continue c
               then log_event EvInvvpidAllContext (log_event EvInveptGlobal m) else m);
          m = (if irql c < DISPATCH_LEVEL then KeLowerIrql (irql c) m else m);
          m = (if IsX64 then writecr8 (cr8 c) m else m)
      in (vm_continue c, stack c, m))"

text \<open>
  The dispatcher returns the verdict; the register file it was given is changed in
  place, so the model returns the stack frame as well.
\<close>

definition VmmVmExitHandler ::
  "HypercallNumber \<Rightarrow> host \<Rightarrow> VmmInitialStack \<Rightarrow> machine
     \<Rightarrow> fatal + bool \<times> VmmInitialStack \<times> machine" where
  "VmmVmExitHandler hn h stk m =
     (case VmmpHandleVmExit hn h (enter_exit stk m) of
        Inl e \<Rightarrow> Inl e
      | Inr (u, s) \<Rightarrow> Inr (leave_exit s))"

section \<open>Verification\<close>

subsection \<open>What the properties are stated with\<close>

text \<open>
  \<open>wp f Q s\<close>: if \<open>f\<close> returns from \<open>s\<close>, then \<open>Q\<close> holds of its result and final state.
\<close>

definition wp :: "'a vmm \<Rightarrow> ('a \<Rightarrow> state \<Rightarrow> bool) \<Rightarrow> state \<Rightarrow> bool" where
  "wp f Q s = (case f s of Inl e \<Rightarrow> True | Inr r \<Rightarrow> Q (fst r) (snd r))"

text \<open>The machine after an injection, and after the advance of the instruction pointer.\<close>

definition injected :: "u32 \<Rightarrow> u32 \<Rightarrow> bool \<Rightarrow> u32 \<Rightarrow> machine \<Rightarrow> machine" where
  "injected t v d e m =
     (let m = vmwrite kVmEntryIntrInfoField (ucast (VmEntryInterruptionInformationField True t v d)) m
      in if d then vmwrite kVmEntryExceptionErrorCode (ucast e) m else m)"

definition advanced :: "GuestContext \<Rightarrow> machine \<Rightarrow> machine" where
  "advanced c m =
     (let len = vmcs m kVmExitInstructionLen;
          m = vmwrite kGuestRip (ip c + len) (snd (vmread kVmExitInstructionLen m))
      in if flag_tf (flag_reg c)
         then vmwrite kVmEntryInstructionLen len
                (injected kHardwareException kDebugException False 0 m)
         else m)"

text \<open>The values written to the guest's instruction pointer, in the order of the writes.\<close>

fun rip_writes :: "event list \<Rightarrow> u64 list" where
  "rip_writes [] = []"
| "rip_writes (EvVmWrite f v # es) = (if f = kGuestRip then v # rip_writes es else rip_writes es)"
| "rip_writes (e # es) = rip_writes es"

text \<open>
  The address-space root \<^verbatim>\<open>VmmpGetKernelCr3\<close> returns, and the dereferences of a
  trace that happened while another root was active.
\<close>

definition kernel_cr3 :: "host \<Rightarrow> machine \<Rightarrow> u64" where
  "kernel_cr3 h m =
     (if vmcs m kGuestCr3 AND 1 \<noteq> 0 then DirectoryTableBase h else vmcs m kGuestCr3)"

fun outside_window :: "u64 \<Rightarrow> event list \<Rightarrow> event list" where
  "outside_window g [] = []"
| "outside_window g (EvLoad r a n # es) =
     (if r = g then outside_window g es else EvLoad r a n # outside_window g es)"
| "outside_window g (EvStore r a n # es) =
     (if r = g then outside_window g es else EvStore r a n # outside_window g es)"
| "outside_window g (e # es) = outside_window g es"

text \<open>
  The hypercall numbers the handler knows lie in the range it declares valid, and differ
  from each other as the labels of a switch do.
\<close>

definition hypercalls_in_range :: "HypercallNumber \<Rightarrow> bool" where
  "hypercalls_in_range hn =
     (UtilIsInBounds (kTerminateVmm hn) (kMinimumHypercallNumber hn) (kMaximumHypercallNumber hn)
      \<and> UtilIsInBounds (kPingVmm hn) (kMinimumHypercallNumber hn) (kMaximumHypercallNumber hn)
      \<and> UtilIsInBounds (kGetSharedProcessorData hn)
            (kMinimumHypercallNumber hn) (kMaximumHypercallNumber hn)
      \<and> kTerminateVmm hn \<noteq> kPingVmm hn
      \<and> kTerminateVmm hn \<noteq> kGetSharedProcessorData hn
      \<and> kPingVmm hn \<noteq> kGetSharedProcessorData hn)"

text \<open>The privilege level \<^verbatim>\<open>VmmpGetGuestCpl\<close> returns.\<close>

definition guest_cpl :: "machine \<Rightarrow> u8" where
  "guest_cpl m = ucast (bitfield 5 2 (ucast (vmcs m kGuestSsArBytes) :: u32))"

text \<open>
  What every handler keeps: CR8 of the processor, which is its interrupt request level,
  the level and the instruction pointer saved in the context; the guest's CR3 is as it
  was or has bit 63 clear; and the guest's instruction pointer is either not written, or
  written once, with the saved instruction pointer plus the length of the instruction
  that exited.
\<close>

definition exit_frame :: "state \<Rightarrow> state \<Rightarrow> bool" where
  "exit_frame s s' =
     (hw_cr8 (snd s') = hw_cr8 (snd s) \<and>
      irql (fst s') = irql (fst s) \<and> ip (fst s') = ip (fst s) \<and>
      (vmcs (snd s') kGuestCr3 = vmcs (snd s) kGuestCr3 \<or> \<not> bit (vmcs (snd s') kGuestCr3) 63) \<and>
      (rip_writes (trace (snd s')) = rip_writes (trace (snd s))
         \<and> vmcs (snd s') kGuestRip = vmcs (snd s) kGuestRip
       \<or> rip_writes (trace (snd s')) =
             rip_writes (trace (snd s)) @ [ip (fst s) + vmcs (snd s) kVmExitInstructionLen]
         \<and> vmcs (snd s') kGuestRip = ip (fst s) + vmcs (snd s) kVmExitInstructionLen))"


text \<open>The CR8 and the level of the processor when the dispatcher has returned.\<close>

definition returned_cr8 :: "fatal + bool \<times> VmmInitialStack \<times> machine \<Rightarrow> u64 option" where
  "returned_cr8 r = (case r of Inl e \<Rightarrow> None | Inr x \<Rightarrow> Some (hw_cr8 (snd (snd x))))"

definition returned_irql :: "fatal + bool \<times> VmmInitialStack \<times> machine \<Rightarrow> u8 option" where
  "returned_irql r =
     (case r of Inl e \<Rightarrow> None | Inr x \<Rightarrow> Some (KeGetCurrentIrql (snd (snd x))))"

text \<open>What a handler leaves in a field of the control structure, if it returns.\<close>

definition final_vmcs :: "fatal + unit \<times> state \<Rightarrow> VmcsField \<Rightarrow> u64 option" where
  "final_vmcs r f = (case r of Inl e \<Rightarrow> None | Inr x \<Rightarrow> Some (vmcs (snd (snd x)) f))"

subsection \<open>Concrete exits\<close>

definition ex_regs :: GpRegisters where
  "ex_regs = \<lparr>r15 = 0, r14 = 0, r13 = 0, r12 = 0, r11 = 0, r10 = 0, r9 = 0, r8 = 0,
              di = 0x7000, si = 0x6000, bp = 0, sp = 0, bx = 0, dx = 0x5000, cx = 3, ax = 0x4000\<rparr>"

definition ex_stack :: VmmInitialStack where
  "ex_stack = \<lparr>gp_regs = ex_regs, trap_frame_sp = 0, trap_frame_ip = 0, processor_data = 0x9000\<rparr>"

definition ex_context :: GuestContext where
  "ex_context = \<lparr>stack = ex_stack, flag_reg = 0x2, ip = 0x1000, cr8 = 0, irql = 0,
                 vm_continue = True\<rparr>"

text \<open>
  A machine whose host runs on the root 0x1000 while the guest's CR3 is 0x2000; the
  exit is of an instruction of two bytes at 0x1000.
\<close>

definition ex_machine :: machine where
  "ex_machine =
     \<lparr>vmcs = (\<lambda>f. 0)(kVmExitInstructionLen := 2, kGuestRip := 0x1000, kGuestCr3 := 0x2000,
                      kGuestRflags := 0x2),
      hw_msr = (\<lambda>i. 0), hw_cr2 = 0, hw_cr3 = 0x1000, hw_cr8 = 0, hw_dr = (\<lambda>n. 0),
      memory = (\<lambda>r a. 0), trace = []\<rparr>"

text \<open>A host whose CPUID reports a hypervisor in leaf 1.\<close>

definition ex_host :: host where
  "ex_host =
     \<lparr>cpuidex = (\<lambda>f s. (0x16, 0x756E6547, 0x80000201, 0x49656E69)), rdtsc = 0x123456789,
      rdtscp_aux = 0, port_input = (\<lambda>p i. 0xAB), processor_number = 0,
      DirectoryTableBase = 0x3000,
      ProcessorData_at = (\<lambda>a. \<lparr>shared_data = 0xA000, ept_data = 0xB000\<rparr>),
      guest_context_address = 0x8000, EptGetEptPtEntry = (\<lambda>e a. 0)\<rparr>"

definition ex_hypercalls :: HypercallNumber where
  "ex_hypercalls =
     \<lparr>kMinimumHypercallNumber = 0x11223300, kMaximumHypercallNumber = 0x11223302,
      kTerminateVmm = 0x11223300, kPingVmm = 0x11223301, kGetSharedProcessorData = 0x11223302\<rparr>"


text \<open>The exit of a CPUID instruction (exit reason 10).\<close>

definition ex_cpuid_machine :: machine where
  "ex_cpuid_machine = ex_machine\<lparr>vmcs := (vmcs ex_machine)(kVmExitReason := 10)\<rparr>"

text \<open>
  The exit of MOV to CR8 from RAX (exit reason 28; the qualification 8 names control
  register 8, the move to it and general-purpose register 0).
\<close>

definition ex_cr8_machine :: machine where
  "ex_cr8_machine =
     ex_machine\<lparr>vmcs := (vmcs ex_machine)(kVmExitReason := 28, kExitQualification := 8)\<rparr>"

text \<open>
  REP INSW from port 0x60 (the qualification 0x600039: size of access 1, direction in,
  string instruction, REP prefix) with the direction flag set.
\<close>

definition ex_io_machine :: machine where
  "ex_io_machine = ex_machine\<lparr>vmcs := (vmcs ex_machine)(kExitQualification := 0x600039)\<rparr>"

definition ex_io_context :: GuestContext where
  "ex_io_context = ex_context\<lparr>flag_reg := 0x402\<rparr>"

text \<open>
  MOV to CR3 from RAX (the qualification 3 names control register 3, the move to it and
  general-purpose register 0) with bit 63 of RAX set, the request not to invalidate.
\<close>

definition ex_cr3_machine :: machine where
  "ex_cr3_machine = ex_machine\<lparr>vmcs := (vmcs ex_machine)(kExitQualification := 3)\<rparr>"

definition ex_cr3_context :: GuestContext where
  "ex_cr3_context = set_regs (ex_regs\<lparr>ax := 0x8000000000004000\<rparr>) ex_context"

text \<open>RDMSR of the index 0x2000, which is not allowed, while the guest is single-stepped.\<close>

definition ex_msr_context :: GuestContext where
  "ex_msr_context = (set_regs (ex_regs\<lparr>cx := 0x2000\<rparr>) ex_context)\<lparr>flag_reg := 0x102\<rparr>"

text \<open>A stack frame whose RAX is 0xC, for the exit of MOV to CR8 from RAX.\<close>

definition ex_cr8_stack :: VmmInitialStack where
  "ex_cr8_stack = ex_stack\<lparr>gp_regs := ex_regs\<lparr>ax := 0xC\<rparr>\<rparr>"

subsection \<open>Running the instructions\<close>

lemma log_event_proj [simp]:
  "vmcs (log_event e m) = vmcs m" "hw_msr (log_event e m) = hw_msr m"
  "hw_cr2 (log_event e m) = hw_cr2 m" "hw_cr3 (log_event e m) = hw_cr3 m"
  "hw_cr8 (log_event e m) = hw_cr8 m" "hw_dr (log_event e m) = hw_dr m"
  "KeGetCurrentIrql (log_event e m) = KeGetCurrentIrql m" "memory (log_event e m) = memory m"
  "trace (log_event e m) = trace m @ [e]"
  by (simp_all add: log_event_def KeGetCurrentIrql_def)

lemma vmread_simp [simp]: "vmread f m = (vmcs m f, log_event (EvVmRead f) m)"
  by (simp add: vmread_def)

lemma vmwrite_proj [simp]:
  "vmcs (vmwrite f v m) = (vmcs m)(f := v)" "hw_msr (vmwrite f v m) = hw_msr m"
  "hw_cr2 (vmwrite f v m) = hw_cr2 m" "hw_cr3 (vmwrite f v m) = hw_cr3 m"
  "hw_cr8 (vmwrite f v m) = hw_cr8 m" "hw_dr (vmwrite f v m) = hw_dr m"
  "KeGetCurrentIrql (vmwrite f v m) = KeGetCurrentIrql m" "memory (vmwrite f v m) = memory m"
  "trace (vmwrite f v m) = trace m @ [EvVmWrite f v]"
  by (simp_all add: vmwrite_def KeGetCurrentIrql_def)

lemma rdmsr_simp [simp]: "rdmsr i m = (hw_msr m i, log_event (EvReadMsr i) m)"
  by (simp add: rdmsr_def)

lemma wrmsr_proj [simp]:
  "vmcs (wrmsr i v m) = vmcs m" "hw_msr (wrmsr i v m) = (hw_msr m)(i := v)"
  "hw_cr2 (wrmsr i v m) = hw_cr2 m" "hw_cr3 (wrmsr i v m) = hw_cr3 m"
  "hw_cr8 (wrmsr i v m) = hw_cr8 m" "hw_dr (wrmsr i v m) = hw_dr m"
  "KeGetCurrentIrql (wrmsr i v m) = KeGetCurrentIrql m" "memory (wrmsr i v m) = memory m"
  "trace (wrmsr i v m) = trace m @ [EvWriteMsr i v]"
  by (simp_all add: wrmsr_def KeGetCurrentIrql_def)

lemma mov_to_cr3_proj [simp]:
  "vmcs (mov_to_cr3 v m) = vmcs m" "hw_msr (mov_to_cr3 v m) = hw_msr m"
  "hw_cr2 (mov_to_cr3 v m) = hw_cr2 m" "hw_cr3 (mov_to_cr3 v m) = v"
  "hw_cr8 (mov_to_cr3 v m) = hw_cr8 m" "hw_dr (mov_to_cr3 v m) = hw_dr m"
  "KeGetCurrentIrql (mov_to_cr3 v m) = KeGetCurrentIrql m" "memory (mov_to_cr3 v m) = memory m"
  "trace (mov_to_cr3 v m) = trace m @ [EvWriteCr3 v]"
  by (simp_all add: mov_to_cr3_def KeGetCurrentIrql_def)

lemma mov_to_cr2_proj [simp]:
  "vmcs (mov_to_cr2 v m) = vmcs m" "hw_msr (mov_to_cr2 v m) = hw_msr m"
  "hw_cr2 (mov_to_cr2 v m) = v" "hw_cr3 (mov_to_cr2 v m) = hw_cr3 m"
  "hw_cr8 (mov_to_cr2 v m) = hw_cr8 m" "hw_dr (mov_to_cr2 v m) = hw_dr m"
  "KeGetCurrentIrql (mov_to_cr2 v m) = KeGetCurrentIrql m" "memory (mov_to_cr2 v m) = memory m"
  "trace (mov_to_cr2 v m) = trace m @ [EvWriteCr2 v]"
  by (simp_all add: mov_to_cr2_def KeGetCurrentIrql_def)

lemma mov_from_dr_simp [simp]: "mov_from_dr n m = (hw_dr m n, log_event (EvReadDr n) m)"
  by (simp add: mov_from_dr_def)

lemma mov_to_dr_proj [simp]:
  "vmcs (mov_to_dr n v m) = vmcs m" "hw_msr (mov_to_dr n v m) = hw_msr m"
  "hw_cr2 (mov_to_dr n v m) = hw_cr2 m" "hw_cr3 (mov_to_dr n v m) = hw_cr3 m"
  "hw_cr8 (mov_to_dr n v m) = hw_cr8 m" "hw_dr (mov_to_dr n v m) = (hw_dr m)(n := v)"
  "KeGetCurrentIrql (mov_to_dr n v m) = KeGetCurrentIrql m" "memory (mov_to_dr n v m) = memory m"
  "trace (mov_to_dr n v m) = trace m @ [EvWriteDr n v]"
  by (simp_all add: mov_to_dr_def KeGetCurrentIrql_def)

lemma guest_load_proj [simp]:
  "vmcs (snd (guest_load n a m)) = vmcs m" "hw_msr (snd (guest_load n a m)) = hw_msr m"
  "hw_cr2 (snd (guest_load n a m)) = hw_cr2 m" "hw_cr3 (snd (guest_load n a m)) = hw_cr3 m"
  "hw_cr8 (snd (guest_load n a m)) = hw_cr8 m" "hw_dr (snd (guest_load n a m)) = hw_dr m"
  "KeGetCurrentIrql (snd (guest_load n a m)) = KeGetCurrentIrql m" "memory (snd (guest_load n a m)) = memory m"
  "trace (snd (guest_load n a m)) = trace m @ [EvLoad (hw_cr3 m) a n]"
  by (simp_all add: guest_load_def KeGetCurrentIrql_def)

lemma guest_store_proj [simp]:
  "vmcs (guest_store n a v m) = vmcs m" "hw_msr (guest_store n a v m) = hw_msr m"
  "hw_cr2 (guest_store n a v m) = hw_cr2 m" "hw_cr3 (guest_store n a v m) = hw_cr3 m"
  "hw_cr8 (guest_store n a v m) = hw_cr8 m" "hw_dr (guest_store n a v m) = hw_dr m"
  "KeGetCurrentIrql (guest_store n a v m) = KeGetCurrentIrql m"
  "memory (guest_store n a v m) = store_bytes (hw_cr3 m) a (le_bytes n v) (memory m)"
  "trace (guest_store n a v m) = trace m @ [EvStore (hw_cr3 m) a n]"
  by (simp_all add: guest_store_def KeGetCurrentIrql_def)

lemma injected_proj [simp]:
  "vmcs (injected t v d e m) =
     (if d then (vmcs m)(kVmEntryIntrInfoField := ucast (VmEntryInterruptionInformationField True t v d),
                         kVmEntryExceptionErrorCode := ucast e)
      else (vmcs m)(kVmEntryIntrInfoField := ucast (VmEntryInterruptionInformationField True t v d)))"
  "hw_msr (injected t v d e m) = hw_msr m"
  "hw_cr2 (injected t v d e m) = hw_cr2 m" "hw_cr3 (injected t v d e m) = hw_cr3 m"
  "hw_cr8 (injected t v d e m) = hw_cr8 m" "hw_dr (injected t v d e m) = hw_dr m"
  "KeGetCurrentIrql (injected t v d e m) = KeGetCurrentIrql m" "memory (injected t v d e m) = memory m"
  "trace (injected t v d e m) = trace m @
     (if d then [EvVmWrite kVmEntryIntrInfoField (ucast (VmEntryInterruptionInformationField True t v d)),
                 EvVmWrite kVmEntryExceptionErrorCode (ucast e)]
      else [EvVmWrite kVmEntryIntrInfoField (ucast (VmEntryInterruptionInformationField True t v d))])"
  by (simp_all add: injected_def Let_def)

lemma advanced_proj [simp]:
  "vmcs (advanced c m) =
     (if flag_tf (flag_reg c) then
        (vmcs m)(kGuestRip := ip c + vmcs m kVmExitInstructionLen,
                 kVmEntryIntrInfoField :=
                   ucast (VmEntryInterruptionInformationField True kHardwareException kDebugException False),
                 kVmEntryInstructionLen := vmcs m kVmExitInstructionLen)
      else (vmcs m)(kGuestRip := ip c + vmcs m kVmExitInstructionLen))"
  "hw_msr (advanced c m) = hw_msr m"
  "hw_cr2 (advanced c m) = hw_cr2 m" "hw_cr3 (advanced c m) = hw_cr3 m"
  "hw_cr8 (advanced c m) = hw_cr8 m" "hw_dr (advanced c m) = hw_dr m"
  "KeGetCurrentIrql (advanced c m) = KeGetCurrentIrql m" "memory (advanced c m) = memory m"
  "trace (advanced c m) = trace m @
     [EvVmRead kVmExitInstructionLen, EvVmWrite kGuestRip (ip c + vmcs m kVmExitInstructionLen)] @
     (if flag_tf (flag_reg c) then
        [EvVmWrite kVmEntryIntrInfoField
           (ucast (VmEntryInterruptionInformationField True kHardwareException kDebugException False)),
         EvVmWrite kVmEntryInstructionLen (vmcs m kVmExitInstructionLen)]
      else [])"
  by (simp_all add: advanced_def Let_def)

lemma set_regs_proj [simp]:
  "regs (set_regs g c) = g" "flag_reg (set_regs g c) = flag_reg c" "ip (set_regs g c) = ip c"
  "cr8 (set_regs g c) = cr8 c" "irql (set_regs g c) = irql c"
  "vm_continue (set_regs g c) = vm_continue c"
  "processor_data (stack (set_regs g c)) = processor_data (stack c)"
  by (simp_all add: set_regs_def regs_def)

lemma regs_update [simp]:
  "regs (c\<lparr>flag_reg := f\<rparr>) = regs c" "regs (c\<lparr>cr8 := v\<rparr>) = regs c"
  "regs (c\<lparr>vm_continue := b\<rparr>) = regs c"
  by (simp_all add: regs_def)

lemmas run_defs = bindv_def thenv_def act_def retv_def insn_def getc_def putc_def failv_def

lemmas util_defs = UtilVmRead_def UtilVmWrite_def UtilVmRead64_def UtilVmWrite64_def
  UtilReadMsr64_def UtilReadMsr_def UtilWriteMsr64_def readcr3_def writecr3_def AsmWriteCR2_def
  readdr_def writedr_def read_reg_def write_reg_def read_selected_def write_selected_def
  UtilLoadPdptes_def UtilInvvpidSingleContextExceptGlobal_def UtilInvvpidIndividualAddress_def
  EptHandleEptViolation_def intrin_cpuidex_def

lemma run_Inject:
  "VmmpInjectInterruption t v d e s = Inr ((), (fst s, injected t v d e (snd s)))"
  by (simp add: VmmpInjectInterruption_def injected_def Let_def UtilVmWrite_def run_defs)

lemma run_Adjust:
  "VmmpAdjustGuestInstructionPointer s = Inr ((), (fst s, advanced (fst s) (snd s)))"
  by (simp add: VmmpAdjustGuestInstructionPointer_def advanced_def Let_def UtilVmWrite_def
        UtilVmRead_def run_defs run_Inject)

lemma wp_retv [simp]: "wp (retv x) Q s = Q x s"
  by (simp add: wp_def retv_def)

lemma wp_failv [simp]: "wp (failv e) Q s = True"
  by (simp add: wp_def failv_def)

lemma wp_bindv [simp]: "wp (bindv f g) Q s = wp f (\<lambda>x s'. wp (g x) Q s') s"
  by (simp add: wp_def bindv_def split: sum.splits)

lemma wp_thenv [simp]: "wp (thenv f g) Q s = wp f (\<lambda>x s'. wp g Q s') s"
  by (simp add: thenv_def)

lemma wp_getc [simp]: "wp getc Q s = Q (fst s) s"
  by (simp add: wp_def getc_def)

lemma wp_putc [simp]: "wp (putc F) Q s = Q () (F (fst s), snd s)"
  by (simp add: wp_def putc_def)

lemma wp_insn [simp]: "wp (insn G) Q s = Q (fst (G (snd s))) (fst s, snd (G (snd s)))"
  by (simp add: wp_def insn_def)

lemma wp_act [simp]: "wp (act H) Q s = Q () (fst s, H (snd s))"
  by (simp add: wp_def act_def)

lemma wp_if [simp]: "wp (if b then f else g) Q s = (if b then wp f Q s else wp g Q s)"
  by simp

lemma wp_case_option [simp]:
  "wp (case x of None \<Rightarrow> f | Some y \<Rightarrow> g y) Q s =
     (case x of None \<Rightarrow> wp f Q s | Some y \<Rightarrow> wp (g y) Q s)"
  by (cases x) simp_all

lemma wp_case_pointer [simp]:
  "wp (case p of GuestVa a \<Rightarrow> f a | HostReg r \<Rightarrow> g r) Q s =
     (case p of GuestVa a \<Rightarrow> wp (f a) Q s | HostReg r \<Rightarrow> wp (g r) Q s)"
  by (cases p) simp_all

lemma wp_Inject [simp]:
  "wp (VmmpInjectInterruption t v d e) Q s = Q () (fst s, injected t v d e (snd s))"
  by (simp add: wp_def run_Inject)

lemma wp_Adjust [simp]:
  "wp VmmpAdjustGuestInstructionPointer Q s = Q () (fst s, advanced (fst s) (snd s))"
  by (simp add: wp_def run_Adjust)

lemma wpD: "wp f Q s \<Longrightarrow> f s = Inr (x, s') \<Longrightarrow> Q x s'"
  by (simp add: wp_def)


lemma rip_writes_append [simp]: "rip_writes (xs @ ys) = rip_writes xs @ rip_writes ys"
  by (induction xs rule: rip_writes.induct) simp_all

lemma outside_window_append [simp]:
  "outside_window g (xs @ ys) = outside_window g xs @ outside_window g ys"
  by (induction g xs rule: outside_window.induct) simp_all

lemma run_GetGuestCpl:
  "VmmpGetGuestCpl s = Inr (guest_cpl (snd s), (fst s, log_event (EvVmRead kGuestSsArBytes) (snd s)))"
  by (simp add: VmmpGetGuestCpl_def guest_cpl_def UtilVmRead_def run_defs Let_def)

lemma wp_GetGuestCpl [simp]:
  "wp VmmpGetGuestCpl Q s = Q (guest_cpl (snd s)) (fst s, log_event (EvVmRead kGuestSsArBytes) (snd s))"
  by (simp add: wp_def run_GetGuestCpl)

lemma set_regs_set_regs [simp]: "set_regs g (set_regs g' c) = set_regs g c"
  by (simp add: set_regs_def)

lemma in_string_0 [simp]: "in_string h port n a 0 m = m"
  by (simp add: in_string_def)

lemma in_string_Suc:
  "in_string h port n a (Suc k) m =
     guest_store n (a + of_nat (k * n)) (port_input h port k)
       (log_event (EvPortIn port n) (in_string h port n a k m))"
  by (simp add: in_string_def)

lemma out_string_0 [simp]: "out_string port n a 0 m = m"
  by (simp add: out_string_def)

lemma out_string_Suc:
  "out_string port n a (Suc k) m =
     log_event (EvPortOut port n (fst (guest_load n (a + of_nat (k * n)) (out_string port n a k m))))
       (snd (guest_load n (a + of_nat (k * n)) (out_string port n a k m)))"
  by (simp add: out_string_def)

lemma in_string_proj [simp]:
  "vmcs (in_string h port n a k m) = vmcs m" "hw_msr (in_string h port n a k m) = hw_msr m"
  "hw_cr2 (in_string h port n a k m) = hw_cr2 m" "hw_cr3 (in_string h port n a k m) = hw_cr3 m"
  "hw_cr8 (in_string h port n a k m) = hw_cr8 m" "hw_dr (in_string h port n a k m) = hw_dr m"
  "KeGetCurrentIrql (in_string h port n a k m) = KeGetCurrentIrql m"
  by (induction k; simp add: in_string_Suc)+

lemma out_string_proj [simp]:
  "vmcs (out_string port n a k m) = vmcs m" "hw_msr (out_string port n a k m) = hw_msr m"
  "hw_cr2 (out_string port n a k m) = hw_cr2 m" "hw_cr3 (out_string port n a k m) = hw_cr3 m"
  "hw_cr8 (out_string port n a k m) = hw_cr8 m" "hw_dr (out_string port n a k m) = hw_dr m"
  "KeGetCurrentIrql (out_string port n a k m) = KeGetCurrentIrql m" "memory (out_string port n a k m) = memory m"
  by (induction k; simp add: out_string_Suc)+

lemma in_string_rip_writes [simp]:
  "rip_writes (trace (in_string h port n a k m)) = rip_writes (trace m)"
  by (induction k) (simp_all add: in_string_Suc)

lemma out_string_rip_writes [simp]:
  "rip_writes (trace (out_string port n a k m)) = rip_writes (trace m)"
  by (induction k) (simp_all add: out_string_Suc)

lemma in_string_outside_window [simp]:
  "hw_cr3 m = g \<Longrightarrow>
     outside_window g (trace (in_string h port n a k m)) = outside_window g (trace m)"
  by (induction k) (simp_all add: in_string_Suc)

lemma out_string_outside_window [simp]:
  "hw_cr3 m = g \<Longrightarrow>
     outside_window g (trace (out_string port n a k m)) = outside_window g (trace m)"
  by (induction k) (simp_all add: out_string_Suc)

lemma kernel_cr3_log_event [simp]: "kernel_cr3 h (log_event e m) = kernel_cr3 h m"
  by (simp add: kernel_cr3_def)

lemma bitfield_4_less: "unat (bitfield lo 4 (q::'a::len word)) < 16"
proof -
  have "unat (take_bit 4 (drop_bit lo q)) = take_bit 4 (unat (drop_bit lo q))"
    by (simp add: unsigned_take_bit_eq)
  also have "\<dots> < 2 ^ 4"
    by (rule take_bit_nat_less_exp)
  finally show ?thesis by (simp add: bitfield_def)
qed

lemma VmmpSelectRegister_Some: "n < 16 \<Longrightarrow> \<exists>r. VmmpSelectRegister n = Some r"
  unfolding VmmpSelectRegister_def by (simp; arith)

lemma register_used_Some:
  "\<exists>r. VmmpSelectRegister (unat (bitfield lo 4 (q::'a::len word))) = Some r"
  by (rule VmmpSelectRegister_Some [OF bitfield_4_less])

lemma bit63_cleared: "\<not> bit (v AND NOT (push_bit 63 1) :: u64) 63"
  by (simp add: bit_simps)

lemma bit63_cleared_numeral: "\<not> bit (v AND - 9223372036854775809 :: u64) 63"
  using bit63_cleared [of v] by simp

lemma bit_top_int: "bit (9223372036854775808::int) n = (n = 63)"
proof -
  have e: "(9223372036854775808::int) = 2 ^ 63"
    by simp
  show ?thesis
    unfolding e bit_exp_iff by auto
qed

lemma bit63_kept: "\<not> bit (p::u64) 63 \<Longrightarrow> p AND push_bit 63 1 = 0"
  by (rule bit_eqI) (auto simp: bit_simps bit_top_int)

subsection \<open>The concrete exits, read\<close>

lemma ex_context_proj [simp]:
  "regs ex_context = ex_regs" "flag_reg ex_context = 0x2" "ip ex_context = 0x1000"
  "cr8 ex_context = 0" "irql ex_context = 0" "vm_continue ex_context = True"
  "processor_data (stack ex_context) = 0x9000"
  by (simp_all add: ex_context_def ex_stack_def regs_def)

lemma ex_machine_proj [simp]:
  "vmcs ex_machine = (\<lambda>f. 0)(kVmExitInstructionLen := 2, kGuestRip := 0x1000, kGuestCr3 := 0x2000,
                      kGuestRflags := 0x2)"
  "hw_msr ex_machine = (\<lambda>i. 0)" "hw_cr2 ex_machine = 0" "hw_cr3 ex_machine = 0x1000"
  "hw_cr8 ex_machine = 0" "hw_dr ex_machine = (\<lambda>n. 0)" "KeGetCurrentIrql ex_machine = 0"
  "memory ex_machine = (\<lambda>r a. 0)" "trace ex_machine = []"
  by (simp_all add: ex_machine_def KeGetCurrentIrql_def)

lemma ex_regs_proj [simp]:
  "ax ex_regs = 0x4000" "cx ex_regs = 3" "dx ex_regs = 0x5000" "bx ex_regs = 0"
  "si ex_regs = 0x6000" "di ex_regs = 0x7000" "sp ex_regs = 0"
  by (simp_all add: ex_regs_def)

lemma not_tf_2 [simp]: "\<not> flag_tf 0x2"
  by (simp add: flag_tf_def)

subsection \<open>RDMSR and WRMSR of an index that is not allowed\<close>

text \<open>
  Claim C2, as the code has it. For every RDMSR or WRMSR exit whose index (the guest's
  CX) is outside both allowed ranges, 0 to 0x1FFF and 0xC0000000 to 0xC0001FFF, and is
  not 0x400000F0, the handler returns, and what it did is exactly the injection of a
  general-protection fault with error code 0x6A followed by the advance of the
  instruction pointer: no model-specific register is read or written, no field that
  stands for a model-specific register is touched, and the guest's registers are as they
  were. The event left for the guest is the general-protection fault only when the
  guest's trap flag is clear: when it is set, the advance writes its debug exception
  over the fault, and the event left is the debug exception, which has no error code.
\<close>

theorem C2_disallowed_msr_faults:
  assumes "\<not> cx (regs c) \<le> 0x1FFF"
      and "\<not> (cx (regs c) \<ge> 0xC0000000 \<and> cx (regs c) \<le> 0xC0001FFF)"
      and "cx (regs c) \<noteq> 0x400000f0"
  shows "\<exists>m'. VmmpHandleMsrAccess read_access (c, m) = Inr ((), (c, m')) \<and>
           m' = advanced c (injected kHardwareException kGeneralProtectionException True 0x6A m) \<and>
           trace m' = trace m @
             [EvVmWrite kVmEntryIntrInfoField
                (ucast (VmEntryInterruptionInformationField True kHardwareException
                          kGeneralProtectionException True)),
              EvVmWrite kVmEntryExceptionErrorCode 0x6A,
              EvVmRead kVmExitInstructionLen,
              EvVmWrite kGuestRip (ip c + vmcs m kVmExitInstructionLen)] @
             (if flag_tf (flag_reg c) then
                [EvVmWrite kVmEntryIntrInfoField
                   (ucast (VmEntryInterruptionInformationField True kHardwareException
                             kDebugException False)),
                 EvVmWrite kVmEntryInstructionLen (vmcs m kVmExitInstructionLen)]
              else []) \<and>
           vmcs m' kVmEntryIntrInfoField =
             (if flag_tf (flag_reg c)
              then ucast (VmEntryInterruptionInformationField True kHardwareException
                            kDebugException False)
              else ucast (VmEntryInterruptionInformationField True kHardwareException
                            kGeneralProtectionException True)) \<and>
           vmcs m' kGuestRip = ip c + vmcs m kVmExitInstructionLen \<and>
           vmcs m' kVmEntryExceptionErrorCode = 0x6A \<and>
           hw_msr m' = hw_msr m"
proof -
  have r1: "(cx (regs c) \<le> 0x1FFF) = False"
    using assms(1) by simp
  have r2: "(0xC0000000 \<le> cx (regs c) \<and> cx (regs c) \<le> 0xC0001FFF) = False"
    using assms(2) by simp
  show ?thesis
    using assms(3)
    by (simp add: VmmpHandleMsrAccess_def read_reg_def run_defs run_Inject run_Adjust Let_def r1 r2)
qed

lemma descriptor_values:
  "ucast (VmEntryInterruptionInformationField True kHardwareException
            kGeneralProtectionException True) = (0x80000B0D :: u64)"
  "ucast (VmEntryInterruptionInformationField True kHardwareException
            kDebugException False) = (0x80000301 :: u64)"
  by (simp_all add: VmEntryInterruptionInformationField_def kHardwareException_def
        kGeneralProtectionException_def kDebugException_def)

lemma ex_msr_context_proj:
  "regs ex_msr_context = ex_regs\<lparr>cx := 0x2000\<rparr>" "flag_tf (flag_reg ex_msr_context)"
  "ip ex_msr_context = 0x1000"
  by (simp_all add: ex_msr_context_def flag_tf_def)

theorem C2_disallowed_msr_faults_witness:
  "(\<exists>m'. VmmpHandleMsrAccess True (set_regs (ex_regs\<lparr>cx := 0x2000\<rparr>) ex_context, ex_machine)
            = Inr ((), (set_regs (ex_regs\<lparr>cx := 0x2000\<rparr>) ex_context, m')) \<and>
         vmcs m' kVmEntryIntrInfoField = 0x80000B0D \<and>
         vmcs m' kGuestRip = 0x1002 \<and>
         vmcs m' kVmEntryExceptionErrorCode = 0x6A \<and>
         hw_msr m' = hw_msr ex_machine)
   \<and> (\<exists>m'. VmmpHandleMsrAccess True (ex_msr_context, ex_machine)
            = Inr ((), (ex_msr_context, m')) \<and>
         vmcs m' kVmEntryIntrInfoField = 0x80000301 \<and>
         vmcs m' kGuestRip = 0x1002 \<and>
         hw_msr m' = hw_msr ex_machine)"
proof -
  let ?c = "set_regs (ex_regs\<lparr>cx := 0x2000\<rparr>) ex_context"
  have a1: "\<not> cx (regs ?c) \<le> 0x1FFF" by simp
  have a2: "\<not> (cx (regs ?c) \<ge> 0xC0000000 \<and> cx (regs ?c) \<le> 0xC0001FFF)" by simp
  have a3: "cx (regs ?c) \<noteq> 0x400000f0" by simp
  have b1: "\<not> cx (regs ex_msr_context) \<le> 0x1FFF"
    by (simp add: ex_msr_context_proj)
  have b2: "\<not> (cx (regs ex_msr_context) \<ge> 0xC0000000 \<and> cx (regs ex_msr_context) \<le> 0xC0001FFF)"
    by (simp add: ex_msr_context_proj)
  have b3: "cx (regs ex_msr_context) \<noteq> 0x400000f0"
    by (simp add: ex_msr_context_proj)
  from C2_disallowed_msr_faults [OF a1 a2 a3, of True ex_machine]
  obtain m1 where r1: "VmmpHandleMsrAccess True (?c, ex_machine) = Inr ((), (?c, m1))"
    and v1: "vmcs m1 kVmEntryIntrInfoField = 0x80000B0D"
      "vmcs m1 kGuestRip = 0x1002" "vmcs m1 kVmEntryExceptionErrorCode = 0x6A"
      "hw_msr m1 = hw_msr ex_machine"
    by (auto simp: descriptor_values)
  from C2_disallowed_msr_faults [OF b1 b2 b3, of True ex_machine]
  obtain m2 where r2: "VmmpHandleMsrAccess True (ex_msr_context, ex_machine)
                         = Inr ((), (ex_msr_context, m2))"
    and v2: "vmcs m2 kVmEntryIntrInfoField = 0x80000301"
      "vmcs m2 kGuestRip = 0x1002" "hw_msr m2 = hw_msr ex_machine"
    by (auto simp: descriptor_values ex_msr_context_proj)
  from r1 v1 r2 v2 show ?thesis
    by blast
qed

text \<open>
  RDMSR of the index 0x2000 with the trap flag set: the event left for the guest is the
  debug exception, 0x80000301, not the general-protection fault, 0x80000B0D.
\<close>

theorem C2_failing_input:
  "final_vmcs (VmmpHandleMsrAccess True (ex_msr_context, ex_machine)) kVmEntryIntrInfoField
     = Some 0x80000301
   \<and> ucast (VmEntryInterruptionInformationField True kHardwareException
               kGeneralProtectionException True) = (0x80000B0D :: u64)"
  by (simp add: final_vmcs_def VmmpHandleMsrAccess_def read_reg_def run_defs run_Inject
        run_Adjust Let_def ex_msr_context_proj descriptor_values)

subsection \<open>CPUID\<close>

text \<open>
  Claim C3. For every CPUID exit with leaf 1 (the low 32 bits of the guest's AX), the
  value the guest receives in CX has the hypervisor-present bit, bit 31, clear. For every
  CPUID exit with leaf 0 the guest receives the fixed vendor identifier (16 in AX,
  0x756E6547 in BX, 0x6C65746E in CX, 0x49656E69 in DX), whatever the host's CPUID returns,
  and then the instruction pointer is advanced. The handler always returns.
\<close>

theorem C3_cpuid_leaf0_leaf1:
  "(ucast (ax (regs c)) = (1::u32) \<longrightarrow>
      (\<exists>c' m'. VmmpHandleCpuid h (c, m) = Inr ((), (c', m')) \<and>
          \<not> bit (cx (regs c')) 31 \<and>
          vmcs m' kGuestRip = ip c + vmcs m kVmExitInstructionLen)) \<and>
   (ucast (ax (regs c)) = (0::u32) \<longrightarrow>
      (\<exists>c' m'. VmmpHandleCpuid h (c, m) = Inr ((), (c', m')) \<and>
          ax (regs c') = 16 \<and> bx (regs c') = 0x756E6547 \<and>
          cx (regs c') = 0x6C65746E \<and> dx (regs c') = 0x49656E69 \<and>
          m' = advanced c' (log_event (EvCpuid 0 (ucast (cx (regs c)))) m) \<and>
          vmcs m' kGuestRip = ip c + vmcs m kVmExitInstructionLen \<and>
          (\<forall>h'. VmmpHandleCpuid h' (c, m) = Inr ((), (c', m')))))"
  by (simp add: VmmpHandleCpuid_def util_defs run_defs run_Adjust Let_def case_prod_beta
        CpuFeaturesEcx_not_used_def bit_simps)

theorem C3_cpuid_leaf0_leaf1_witness:
  "(\<exists>c' m'. VmmpHandleCpuid ex_host (set_regs (ex_regs\<lparr>ax := 1\<rparr>) ex_context, ex_machine)
              = Inr ((), (c', m')) \<and>
      \<not> bit (cx (regs c')) 31 \<and> vmcs m' kGuestRip = 0x1002) \<and>
   (\<exists>c' m'. VmmpHandleCpuid ex_host (set_regs (ex_regs\<lparr>ax := 0\<rparr>) ex_context, ex_machine)
              = Inr ((), (c', m')) \<and>
      ax (regs c') = 16 \<and> bx (regs c') = 0x756E6547 \<and>
      cx (regs c') = 0x6C65746E \<and> dx (regs c') = 0x49656E69 \<and> vmcs m' kGuestRip = 0x1002)"
proof -
  let ?c1 = "set_regs (ex_regs\<lparr>ax := 1\<rparr>) ex_context"
  let ?c0 = "set_regs (ex_regs\<lparr>ax := 0\<rparr>) ex_context"
  have one: "ucast (ax (regs ?c1)) = (1::u32)" by simp
  have zero: "ucast (ax (regs ?c0)) = (0::u32)" by simp
  have len: "ip ?c1 + vmcs ex_machine kVmExitInstructionLen = 0x1002"
            "ip ?c0 + vmcs ex_machine kVmExitInstructionLen = 0x1002"
    by simp_all
  from C3_cpuid_leaf0_leaf1 [of ?c1 ex_host ex_machine] one
  have "\<exists>c' m'. VmmpHandleCpuid ex_host (?c1, ex_machine) = Inr ((), (c', m')) \<and>
          \<not> bit (cx (regs c')) 31 \<and>
          vmcs m' kGuestRip = ip ?c1 + vmcs ex_machine kVmExitInstructionLen"
    by blast
  moreover
  from C3_cpuid_leaf0_leaf1 [of ?c0 ex_host ex_machine] zero
  have "\<exists>c' m'. VmmpHandleCpuid ex_host (?c0, ex_machine) = Inr ((), (c', m')) \<and>
          ax (regs c') = 16 \<and> bx (regs c') = 0x756E6547 \<and>
          cx (regs c') = 0x6C65746E \<and> dx (regs c') = 0x49656E69 \<and>
          vmcs m' kGuestRip = ip ?c0 + vmcs ex_machine kVmExitInstructionLen"
    by blast
  ultimately show ?thesis
    unfolding len by blast
qed

subsection \<open>MOV to a control register\<close>

lemma fixed_bits_idem: "(((v AND f1) OR f0) AND f1) OR f0 = (v AND f1) OR (f0::u64)"
  by (rule bit_eqI) (auto simp: bit_simps)

text \<open>
  Claim C5. For every MOV-to-CR0 and MOV-to-CR4 exit the handler returns; the value it
  commits is the source register's value ANDed with the fixed-1 MSR and then ORed with
  the fixed-0 MSR, so the committed value v satisfies (v AND fixed1) OR fixed0 = v; and
  the same value is written to the guest's control-register field and to its read
  shadow.
\<close>

theorem C5_cr0_cr4_fixed_bits:
  assumes "bitfield 4 2 (vmcs m kExitQualification) = 0"
  shows "(unat (bitfield 0 4 (vmcs m kExitQualification)) = 0 \<longrightarrow>
            (\<exists>r m'. VmmpSelectRegister (unat (bitfield 8 4 (vmcs m kExitQualification))) = Some r \<and>
               VmmpHandleCrAccess h (c, m) = Inr ((), (c, m')) \<and>
               vmcs m' kGuestCr0 =
                 (reg_read r (regs c) AND hw_msr m kIa32VmxCr0Fixed1) OR hw_msr m kIa32VmxCr0Fixed0 \<and>
               vmcs m' kCr0ReadShadow = vmcs m' kGuestCr0 \<and>
               (vmcs m' kGuestCr0 AND hw_msr m kIa32VmxCr0Fixed1) OR hw_msr m kIa32VmxCr0Fixed0
                 = vmcs m' kGuestCr0)) \<and>
         (unat (bitfield 0 4 (vmcs m kExitQualification)) = 4 \<longrightarrow>
            (\<exists>r m'. VmmpSelectRegister (unat (bitfield 8 4 (vmcs m kExitQualification))) = Some r \<and>
               VmmpHandleCrAccess h (c, m) = Inr ((), (c, m')) \<and>
               vmcs m' kGuestCr4 =
                 (reg_read r (regs c) AND hw_msr m kIa32VmxCr4Fixed1) OR hw_msr m kIa32VmxCr4Fixed0 \<and>
               vmcs m' kCr4ReadShadow = vmcs m' kGuestCr4 \<and>
               (vmcs m' kGuestCr4 AND hw_msr m kIa32VmxCr4Fixed1) OR hw_msr m kIa32VmxCr4Fixed0
                 = vmcs m' kGuestCr4))"
proof -
  obtain r where r: "VmmpSelectRegister (unat (bitfield 8 4 (vmcs m kExitQualification))) = Some r"
    using register_used_Some by blast
  show ?thesis
    using assms r
    by (simp add: VmmpHandleCrAccess_def util_defs run_defs run_Adjust Let_def UtilIsX86Pae_def
          fixed_bits_idem)
qed

theorem C5_cr0_cr4_fixed_bits_witness:
  "(\<exists>m'. VmmpHandleCrAccess ex_host
            (ex_context,
             ex_machine\<lparr>vmcs := (vmcs ex_machine)(kExitQualification := 0),
                         hw_msr := (hw_msr ex_machine)(kIa32VmxCr0Fixed0 := 0x21,
                                                       kIa32VmxCr0Fixed1 := 0xFFFF)\<rparr>)
          = Inr ((), (ex_context, m')) \<and>
        vmcs m' kGuestCr0 = 0x4021 \<and> vmcs m' kCr0ReadShadow = 0x4021) \<and>
   (\<exists>m'. VmmpHandleCrAccess ex_host
            (ex_context,
             ex_machine\<lparr>vmcs := (vmcs ex_machine)(kExitQualification := 4),
                         hw_msr := (hw_msr ex_machine)(kIa32VmxCr4Fixed0 := 0x2000,
                                                       kIa32VmxCr4Fixed1 := 0xFFF)\<rparr>)
          = Inr ((), (ex_context, m')) \<and>
        vmcs m' kGuestCr4 = 0x2000 \<and> vmcs m' kCr4ReadShadow = 0x2000)"
proof -
  let ?m0 = "ex_machine\<lparr>vmcs := (vmcs ex_machine)(kExitQualification := 0),
                         hw_msr := (hw_msr ex_machine)(kIa32VmxCr0Fixed0 := 0x21,
                                                       kIa32VmxCr0Fixed1 := 0xFFFF)\<rparr>"
  let ?m4 = "ex_machine\<lparr>vmcs := (vmcs ex_machine)(kExitQualification := 4),
                         hw_msr := (hw_msr ex_machine)(kIa32VmxCr4Fixed0 := 0x2000,
                                                       kIa32VmxCr4Fixed1 := 0xFFF)\<rparr>"
  have a0: "bitfield 4 2 (vmcs ?m0 kExitQualification) = 0"
           "unat (bitfield 0 4 (vmcs ?m0 kExitQualification)) = 0"
           "VmmpSelectRegister (unat (bitfield 8 4 (vmcs ?m0 kExitQualification))) = Some RegAx"
    by (simp_all add: bitfield_def VmmpSelectRegister_def)
  have a4: "bitfield 4 2 (vmcs ?m4 kExitQualification) = 0"
           "unat (bitfield 0 4 (vmcs ?m4 kExitQualification)) = 4"
           "VmmpSelectRegister (unat (bitfield 8 4 (vmcs ?m4 kExitQualification))) = Some RegAx"
    by (simp_all add: bitfield_def VmmpSelectRegister_def)
  have v0: "(reg_read RegAx (regs ex_context) AND hw_msr ?m0 kIa32VmxCr0Fixed1)
              OR hw_msr ?m0 kIa32VmxCr0Fixed0 = 0x4021"
    by (simp add: kIa32VmxCr0Fixed0_def kIa32VmxCr0Fixed1_def)
  have v4: "(reg_read RegAx (regs ex_context) AND hw_msr ?m4 kIa32VmxCr4Fixed1)
              OR hw_msr ?m4 kIa32VmxCr4Fixed0 = 0x2000"
    by (simp add: kIa32VmxCr4Fixed0_def kIa32VmxCr4Fixed1_def)
  from C5_cr0_cr4_fixed_bits [OF a0(1), of ex_host ex_context] a0(2,3)
  have "\<exists>m'. VmmpHandleCrAccess ex_host (ex_context, ?m0) = Inr ((), (ex_context, m')) \<and>
          vmcs m' kGuestCr0 = (reg_read RegAx (regs ex_context) AND hw_msr ?m0 kIa32VmxCr0Fixed1)
              OR hw_msr ?m0 kIa32VmxCr0Fixed0 \<and>
          vmcs m' kCr0ReadShadow = vmcs m' kGuestCr0"
    by auto
  moreover
  from C5_cr0_cr4_fixed_bits [OF a4(1), of ex_host ex_context] a4(2,3)
  have "\<exists>m'. VmmpHandleCrAccess ex_host (ex_context, ?m4) = Inr ((), (ex_context, m')) \<and>
          vmcs m' kGuestCr4 = (reg_read RegAx (regs ex_context) AND hw_msr ?m4 kIa32VmxCr4Fixed1)
              OR hw_msr ?m4 kIa32VmxCr4Fixed0 \<and>
          vmcs m' kCr4ReadShadow = vmcs m' kGuestCr4"
    by auto
  ultimately show ?thesis
    unfolding v0 v4 by auto
qed

subsection \<open>VMCALL that does not succeed\<close>

lemma run_Unsuccessful:
  "VmmpIndicateUnsuccessfulVmcall s =
     Inr ((), (fst s,
       vmwrite kVmEntryInstructionLen (vmcs (snd s) kVmExitInstructionLen)
         (log_event (EvVmRead kVmExitInstructionLen)
            (injected kHardwareException kInvalidOpcodeException False 0 (snd s)))))"
  by (simp add: VmmpIndicateUnsuccessfulVmcall_def util_defs run_defs run_Inject)

lemma out_of_range_no_label:
  assumes "hypercalls_in_range hn"
      and "\<not> UtilIsInBounds n (kMinimumHypercallNumber hn) (kMaximumHypercallNumber hn)"
  shows "n \<noteq> kTerminateVmm hn" "n \<noteq> kPingVmm hn" "n \<noteq> kGetSharedProcessorData hn"
  using assms by (auto simp: hypercalls_in_range_def)

text \<open>
  Claim C7. Let the hypercall numbers the handler knows lie in the range it declares
  valid. For every VMCALL exit whose hypercall number (the low 32 bits of the guest's CX)
  is outside that range, the handler returns, an invalid-opcode fault is injected, the
  entry-instruction-length field is set to the exit's instruction length, and the guest's
  instruction pointer is not written: the handler's accesses are the write of the
  interruption information, the read of the instruction length and the write of the
  entry instruction length.
\<close>

theorem C7_vmcall_out_of_range:
  assumes "hypercalls_in_range hn"
      and "\<not> UtilIsInBounds (ucast (cx (regs c)) :: u32)
               (kMinimumHypercallNumber hn) (kMaximumHypercallNumber hn)"
  shows "\<exists>m'. VmmpHandleVmCall hn h (c, m) = Inr ((), (c, m')) \<and>
           vmcs m' kVmEntryIntrInfoField =
             ucast (VmEntryInterruptionInformationField True kHardwareException
                      kInvalidOpcodeException False) \<and>
           vmcs m' kVmEntryInstructionLen = vmcs m kVmExitInstructionLen \<and>
           vmcs m' kGuestRip = vmcs m kGuestRip \<and>
           rip_writes (trace m') = rip_writes (trace m) \<and>
           trace m' = trace m @
             [EvVmWrite kVmEntryIntrInfoField
                (ucast (VmEntryInterruptionInformationField True kHardwareException
                          kInvalidOpcodeException False)),
              EvVmRead kVmExitInstructionLen,
              EvVmWrite kVmEntryInstructionLen (vmcs m kVmExitInstructionLen)]"
  using assms(2) out_of_range_no_label [OF assms]
  by (simp add: VmmpHandleVmCall_def run_defs run_Unsuccessful Let_def)

theorem C7_vmcall_out_of_range_witness:
  "\<exists>m'. VmmpHandleVmCall ex_hypercalls ex_host (ex_context, ex_machine)
            = Inr ((), (ex_context, m')) \<and>
         vmcs m' kVmEntryIntrInfoField =
           ucast (VmEntryInterruptionInformationField True kHardwareException
                    kInvalidOpcodeException False) \<and>
         vmcs m' kVmEntryInstructionLen = 2 \<and>
         vmcs m' kGuestRip = 0x1000 \<and>
         rip_writes (trace m') = []"
proof -
  have a1: "hypercalls_in_range ex_hypercalls"
    by (simp add: hypercalls_in_range_def ex_hypercalls_def UtilIsInBounds_def)
  have a2: "\<not> UtilIsInBounds (ucast (cx (regs ex_context)) :: u32)
               (kMinimumHypercallNumber ex_hypercalls) (kMaximumHypercallNumber ex_hypercalls)"
    by (simp add: ex_hypercalls_def UtilIsInBounds_def)
  from C7_vmcall_out_of_range [OF a1 a2, of ex_host ex_machine]
  show ?thesis by auto
qed

text \<open>
  Claim C10. Let the hypercall numbers the handler knows lie in the range it declares
  valid. For every VMCALL that does not succeed (a hypercall number outside the range, or
  a termination request while the guest's privilege level is not 0) the handler returns
  with the context (the guest's registers and flags) as it was, with memory as it was,
  and with the machine changed in two fields of the control structure only: the entry
  interruption information, which holds the invalid-opcode fault, and the entry
  instruction length.
\<close>

theorem C10_unsuccessful_vmcall_is_atomic:
  assumes "hypercalls_in_range hn"
      and "\<not> UtilIsInBounds (ucast (cx (regs c)) :: u32)
               (kMinimumHypercallNumber hn) (kMaximumHypercallNumber hn)
           \<or> ((ucast (cx (regs c)) :: u32) = kTerminateVmm hn \<and> guest_cpl m \<noteq> 0)"
  shows "\<exists>m'. VmmpHandleVmCall hn h (c, m) = Inr ((), (c, m')) \<and>
           memory m' = memory m \<and>
           vmcs m' = (vmcs m)
             (kVmEntryIntrInfoField :=
                ucast (VmEntryInterruptionInformationField True kHardwareException
                         kInvalidOpcodeException False),
              kVmEntryInstructionLen := vmcs m kVmExitInstructionLen) \<and>
           hw_msr m' = hw_msr m \<and> hw_dr m' = hw_dr m \<and> hw_cr2 m' = hw_cr2 m \<and>
           hw_cr3 m' = hw_cr3 m \<and> hw_cr8 m' = hw_cr8 m \<and> KeGetCurrentIrql m' = KeGetCurrentIrql m \<and>
           trace m' = trace m @
             (if UtilIsInBounds (ucast (cx (regs c)) :: u32)
                   (kMinimumHypercallNumber hn) (kMaximumHypercallNumber hn)
              then [EvVmRead kGuestSsArBytes] else []) @
             [EvVmWrite kVmEntryIntrInfoField
                (ucast (VmEntryInterruptionInformationField True kHardwareException
                          kInvalidOpcodeException False)),
              EvVmRead kVmExitInstructionLen,
              EvVmWrite kVmEntryInstructionLen (vmcs m kVmExitInstructionLen)]"
proof (cases "UtilIsInBounds (ucast (cx (regs c)) :: u32)
               (kMinimumHypercallNumber hn) (kMaximumHypercallNumber hn)")
  case False
  then show ?thesis
    using out_of_range_no_label [OF assms(1) False]
    by (simp add: VmmpHandleVmCall_def run_defs run_Unsuccessful Let_def)
next
  case True
  with assms(2) have "(ucast (cx (regs c)) :: u32) = kTerminateVmm hn" "guest_cpl m \<noteq> 0"
    by auto
  with True show ?thesis
    by (simp add: VmmpHandleVmCall_def run_defs run_Unsuccessful run_GetGuestCpl Let_def)
qed

theorem C10_unsuccessful_vmcall_is_atomic_witness:
  "\<exists>m'. VmmpHandleVmCall ex_hypercalls ex_host
            (set_regs (ex_regs\<lparr>cx := 0x11223300\<rparr>) ex_context,
             ex_machine\<lparr>vmcs := (vmcs ex_machine)(kGuestSsArBytes := 0x60)\<rparr>)
          = Inr ((), (set_regs (ex_regs\<lparr>cx := 0x11223300\<rparr>) ex_context, m')) \<and>
         memory m' = memory ex_machine \<and>
         vmcs m' kVmEntryInstructionLen = 2 \<and>
         hw_msr m' = hw_msr ex_machine"
proof -
  let ?c = "set_regs (ex_regs\<lparr>cx := 0x11223300\<rparr>) ex_context"
  let ?m = "ex_machine\<lparr>vmcs := (vmcs ex_machine)(kGuestSsArBytes := 0x60)\<rparr>"
  have a1: "hypercalls_in_range ex_hypercalls"
    by (simp add: hypercalls_in_range_def ex_hypercalls_def UtilIsInBounds_def)
  have a2: "\<not> UtilIsInBounds (ucast (cx (regs ?c)) :: u32)
               (kMinimumHypercallNumber ex_hypercalls) (kMaximumHypercallNumber ex_hypercalls)
           \<or> ((ucast (cx (regs ?c)) :: u32) = kTerminateVmm ex_hypercalls \<and> guest_cpl ?m \<noteq> 0)"
    by (simp add: ex_hypercalls_def guest_cpl_def bitfield_def)
  from C10_unsuccessful_vmcall_is_atomic [OF a1 a2, of ex_host]
  show ?thesis by auto
qed

subsection \<open>String I/O\<close>

text \<open>
  Claim C6. For every exit of a string I/O instruction whose encoded size of access is
  one the handler decodes (0, 1 or 3: one, two or four bytes), the handler returns, and
  it has changed DI (for INS) or SI (for OUTS), and not the other of the two, by
  count * size of access, where count is the guest's CX for a REP-prefixed instruction
  and 1 otherwise: subtracted when the guest's direction flag is set, added otherwise.
\<close>

theorem C6_string_io_updates_index:
  assumes "bitfield 4 1 (vmcs m kExitQualification) = 1"
      and "bitfield 0 3 (vmcs m kExitQualification) = 0
           \<or> bitfield 0 3 (vmcs m kExitQualification) = 1
           \<or> bitfield 0 3 (vmcs m kExitQualification) = 3"
  shows "\<exists>c' m'. VmmpHandleIoPort h (c, m) = Inr ((), (c', m')) \<and>
           (let q = vmcs m kExitQualification;
                count = (if bitfield 5 1 q = 1 then cx (regs c) else 1);
                size_of_access = (if bitfield 0 3 q = 0 then 1
                                  else if bitfield 0 3 q = 1 then 2 else 4);
                update_size = count * size_of_access
            in (if bitfield 3 1 q = 1
                then di (regs c') = (if flag_df (flag_reg c) then di (regs c) - update_size
                                     else di (regs c) + update_size)
                     \<and> si (regs c') = si (regs c)
                else si (regs c') = (if flag_df (flag_reg c) then si (regs c) - update_size
                                     else si (regs c) + update_size)
                     \<and> di (regs c') = di (regs c)))"
  using assms
  by (auto simp add: VmmpHandleIoPort_def VmmpIoWrapper_def io_transfer_def
        VmmpGetKernelCr3_def IsX64_def util_defs run_defs run_Adjust Let_def)

theorem C6_string_io_updates_index_witness:
  "\<exists>c' m'. VmmpHandleIoPort ex_host (ex_io_context, ex_io_machine) = Inr ((), (c', m')) \<and>
     di (regs c') = 0x6FFA \<and> si (regs c') = 0x6000"
proof -
  have a1: "bitfield 4 1 (vmcs ex_io_machine kExitQualification) = 1"
    by (simp add: ex_io_machine_def bitfield_def)
  have a2: "bitfield 0 3 (vmcs ex_io_machine kExitQualification) = 0
            \<or> bitfield 0 3 (vmcs ex_io_machine kExitQualification) = 1
            \<or> bitfield 0 3 (vmcs ex_io_machine kExitQualification) = 3"
    by (simp add: ex_io_machine_def bitfield_def)
  have v: "bitfield 0 3 (vmcs ex_io_machine kExitQualification) = 1"
    "bitfield 3 (Suc 0) (vmcs ex_io_machine kExitQualification) = 1"
    "bitfield 5 (Suc 0) (vmcs ex_io_machine kExitQualification) = 1"
    by (simp_all add: ex_io_machine_def bitfield_def)
  have c: "flag_df (flag_reg ex_io_context)" "regs ex_io_context = ex_regs"
    by (simp_all add: ex_io_context_def flag_df_def)
  from C6_string_io_updates_index [OF a1 a2, of ex_host ex_io_context]
  show ?thesis
    by (simp add: v c Let_def)
qed

subsection \<open>What every handler keeps\<close>

lemma wp_mono: "wp f Q' s \<Longrightarrow> (\<And>x s'. Q' x s' \<Longrightarrow> Q x s') \<Longrightarrow> wp f Q s"
  by (auto simp: wp_def split: sum.splits)

lemma frame_Exception:
  "wp VmmpHandleException (\<lambda>u s'. exit_frame s s' \<and> cr8 (fst s') = cr8 (fst s)) s"
  by (simp add: VmmpHandleException_def exit_frame_def util_defs Let_def)

lemma frame_Cpuid:
  "wp (VmmpHandleCpuid h) (\<lambda>u s'. exit_frame s s' \<and> cr8 (fst s') = cr8 (fst s)) s"
  by (simp add: VmmpHandleCpuid_def exit_frame_def util_defs Let_def split: prod.splits)

lemma frame_Invd:
  "wp VmmpHandleInvalidateInternalCaches (\<lambda>u s'. exit_frame s s' \<and> cr8 (fst s') = cr8 (fst s)) s"
  by (simp add: VmmpHandleInvalidateInternalCaches_def exit_frame_def util_defs Let_def)

lemma frame_Invlpg:
  "wp (VmmpHandleInvalidateTlbEntry h) (\<lambda>u s'. exit_frame s s' \<and> cr8 (fst s') = cr8 (fst s)) s"
  by (simp add: VmmpHandleInvalidateTlbEntry_def exit_frame_def util_defs Let_def)

lemma frame_Rdtsc:
  "wp (VmmpHandleRdtsc h) (\<lambda>u s'. exit_frame s s' \<and> cr8 (fst s') = cr8 (fst s)) s"
  by (simp add: VmmpHandleRdtsc_def exit_frame_def util_defs Let_def)

lemma frame_Rdtscp:
  "wp (VmmpHandleRdtscp h) (\<lambda>u s'. exit_frame s s' \<and> cr8 (fst s') = cr8 (fst s)) s"
  by (simp add: VmmpHandleRdtscp_def exit_frame_def util_defs Let_def split: prod.splits)

lemma frame_Xsetbv:
  "wp VmmpHandleXsetbv (\<lambda>u s'. exit_frame s s' \<and> cr8 (fst s') = cr8 (fst s)) s"
  by (simp add: VmmpHandleXsetbv_def exit_frame_def util_defs Let_def)

lemma frame_Vmx:
  "wp VmmpHandleVmx (\<lambda>u s'. exit_frame s s' \<and> cr8 (fst s') = cr8 (fst s)) s"
  by (simp add: VmmpHandleVmx_def exit_frame_def util_defs Let_def)

lemma frame_TripleFault:
  "wp (VmmpHandleTripleFault h) (\<lambda>u s'. exit_frame s s' \<and> cr8 (fst s') = cr8 (fst s)) s"
  by (simp add: VmmpHandleTripleFault_def)

lemma frame_UnexpectedExit:
  "wp (VmmpHandleUnexpectedExit h) (\<lambda>u s'. exit_frame s s' \<and> cr8 (fst s') = cr8 (fst s)) s"
  by (simp add: VmmpHandleUnexpectedExit_def util_defs)

lemma frame_MonitorTrap:
  "wp (VmmpHandleMonitorTrap h) (\<lambda>u s'. exit_frame s s' \<and> cr8 (fst s') = cr8 (fst s)) s"
  by (simp add: VmmpHandleMonitorTrap_def)

lemma frame_EptMisconfig:
  "wp (VmmpHandleEptMisconfig h) (\<lambda>u s'. exit_frame s s' \<and> cr8 (fst s') = cr8 (fst s)) s"
  by (simp add: VmmpHandleEptMisconfig_def util_defs Let_def)

lemma frame_EptViolation:
  "wp (VmmpHandleEptViolation h) (\<lambda>u s'. exit_frame s s' \<and> cr8 (fst s') = cr8 (fst s)) s"
  by (simp add: VmmpHandleEptViolation_def exit_frame_def util_defs Let_def)

lemma frame_VmCall:
  "wp (VmmpHandleVmCall hn h) (\<lambda>u s'. exit_frame s s' \<and> cr8 (fst s') = cr8 (fst s)) s"
  by (simp add: VmmpHandleVmCall_def VmmpHandleVmCallTermination_def
        VmmpIndicateUnsuccessfulVmcall_def VmmpIndicateSuccessfulVmcall_def deref_store_def
        exit_frame_def util_defs Let_def)

lemma msr_vmcs_field_not_rip:
  "fst (msr_vmcs_field msr) \<noteq> kGuestRip" "fst (msr_vmcs_field msr) \<noteq> kVmExitInstructionLen"
  "fst (msr_vmcs_field msr) \<noteq> kGuestCr3"
  by (simp_all add: msr_vmcs_field_def)

lemma frame_MsrAccess:
  "wp (VmmpHandleMsrAccess r) (\<lambda>u s'. exit_frame s s' \<and> cr8 (fst s') = cr8 (fst s)) s"
proof (cases "msr_vmcs_field (ucast (cx (regs (fst s))))")
  case (Pair f t)
  with msr_vmcs_field_not_rip [of "ucast (cx (regs (fst s)))"]
  have f: "f \<noteq> kGuestRip" "f \<noteq> kVmExitInstructionLen" "f \<noteq> kGuestCr3"
    "kGuestRip \<noteq> f" "kVmExitInstructionLen \<noteq> f" "kGuestCr3 \<noteq> f"
    by auto
  show ?thesis
    by (simp add: VmmpHandleMsrAccess_def Pair f exit_frame_def util_defs Let_def)
qed

lemma frame_CrAccess:
  "wp (VmmpHandleCrAccess h)
     (\<lambda>u s'. exit_frame s s' \<and>
        (if bitfield 4 2 (vmcs (snd s) kExitQualification) = 0
            \<and> unat (bitfield 0 4 (vmcs (snd s) kExitQualification)) = 8
         then \<exists>r. VmmpSelectRegister (unat (bitfield 8 4 (vmcs (snd s) kExitQualification))) = Some r
                 \<and> cr8 (fst s') = reg_read r (regs (fst s))
         else cr8 (fst s') = cr8 (fst s))) s"
proof -
  obtain r where r: "VmmpSelectRegister (unat (bitfield 8 4 (vmcs (snd s) kExitQualification))) = Some r"
    using register_used_Some by blast
  show ?thesis
    by (simp add: VmmpHandleCrAccess_def r UtilIsX86Pae_def exit_frame_def util_defs Let_def
          bit63_cleared_numeral)
qed

lemma frame_DrAccess:
  "wp VmmpHandleDrAccess (\<lambda>u s'. exit_frame s s' \<and> cr8 (fst s') = cr8 (fst s)) s"
proof -
  obtain r where r: "VmmpSelectRegister (unat (bitfield 8 4 (vmcs (snd s) kExitQualification))) = Some r"
    using register_used_Some by blast
  show ?thesis
    by (simp add: VmmpHandleDrAccess_def move_to_dr_def move_from_dr_def r IsX64_def
          exit_frame_def util_defs Let_def)
qed

lemma frame_IoPort:
  "wp (VmmpHandleIoPort h) (\<lambda>u s'. exit_frame s s' \<and> cr8 (fst s') = cr8 (fst s)) s"
  by (simp add: VmmpHandleIoPort_def VmmpIoWrapper_def io_transfer_def VmmpGetKernelCr3_def
        deref_store_def deref_load_def IsX64_def exit_frame_def util_defs Let_def)

lemma run_GetKernelCr3:
  "VmmpGetKernelCr3 h s = Inr (kernel_cr3 h (snd s), (fst s, log_event (EvVmRead kGuestCr3) (snd s)))"
  by (simp add: VmmpGetKernelCr3_def kernel_cr3_def IsX64_def util_defs run_defs)

lemma kernel_cr3_cong: "vmcs m' = vmcs m \<Longrightarrow> kernel_cr3 h m' = kernel_cr3 h m"
  by (simp add: kernel_cr3_def)

lemma run_operand_address:
  "\<exists>x m'. operand_address i d (c, m) = Inr (x, (c, m')) \<and>
     vmcs m' = vmcs m \<and> hw_cr3 m' = hw_cr3 m \<and> hw_cr8 m' = hw_cr8 m \<and> KeGetCurrentIrql m' = KeGetCurrentIrql m \<and>
     rip_writes (trace m') = rip_writes (trace m) \<and>
     outside_window g (trace m') = outside_window g (trace m)"
proof -
  obtain rb where rb: "VmmpSelectRegister (unat (bitfield 23 4 i)) = Some rb"
    using register_used_Some by blast
  obtain ri where ri: "VmmpSelectRegister (unat (bitfield 18 4 i)) = Some ri"
    using register_used_Some by blast
  show ?thesis
    by (simp add: operand_address_def rb ri util_defs run_defs Let_def)
qed

lemma run_LdtrOrTr_operand:
  "\<exists>p m'. LdtrOrTr_operand i d (c, m) = Inr (p, (c, m')) \<and>
     vmcs m' = vmcs m \<and> hw_cr3 m' = hw_cr3 m \<and> hw_cr8 m' = hw_cr8 m \<and> KeGetCurrentIrql m' = KeGetCurrentIrql m \<and>
     rip_writes (trace m') = rip_writes (trace m) \<and>
     outside_window g (trace m') = outside_window g (trace m)"
proof (cases "bit i 10")
  case True
  then show ?thesis
    by (simp add: LdtrOrTr_operand_def run_defs)
next
  case False
  from run_operand_address [of i d c m g] obtain x m' where
    "operand_address i d (c, m) = Inr (x, (c, m'))"
    "vmcs m' = vmcs m" "hw_cr3 m' = hw_cr3 m" "hw_cr8 m' = hw_cr8 m" "KeGetCurrentIrql m' = KeGetCurrentIrql m"
    "rip_writes (trace m') = rip_writes (trace m)"
    "outside_window g (trace m') = outside_window g (trace m)"
    by auto
  with False show ?thesis
    by (simp add: LdtrOrTr_operand_def run_defs)
qed

text \<open>
  The two emulators of descriptor-table instructions return, keep what every handler
  keeps, leave the processor on the root it had, and dereference memory only while the
  root is the guest's.
\<close>

lemma run_GdtrOrIdtrAccess:
  "\<exists>c' m'. VmmpHandleGdtrOrIdtrAccess h (c, m) = Inr ((), (c', m')) \<and>
     exit_frame (c, m) (c', m') \<and> cr8 c' = cr8 c \<and> hw_cr3 m' = hw_cr3 m \<and>
     outside_window (kernel_cr3 h m) (trace m') = outside_window (kernel_cr3 h m) (trace m)"
proof -
  let ?i = "ucast (vmcs m kVmxInstructionInfo) :: u32"
  let ?m1 = "log_event (EvVmRead kExitQualification) (log_event (EvVmRead kVmxInstructionInfo) m)"
  from run_operand_address [of ?i "vmcs m kExitQualification" c ?m1 "kernel_cr3 h m"]
  obtain x m2 where op: "operand_address ?i (vmcs m kExitQualification) (c, ?m1) = Inr (x, (c, m2))"
    and fr: "vmcs m2 = vmcs m" "hw_cr3 m2 = hw_cr3 m" "hw_cr8 m2 = hw_cr8 m" "KeGetCurrentIrql m2 = KeGetCurrentIrql m"
      "rip_writes (trace m2) = rip_writes (trace m)"
      "outside_window (kernel_cr3 h m) (trace m2) = outside_window (kernel_cr3 h m) (trace m)"
    by auto
  have k: "kernel_cr3 h m2 = kernel_cr3 h m"
    by (rule kernel_cr3_cong) (rule fr)
  show ?thesis
    by (simp add: VmmpHandleGdtrOrIdtrAccess_def emulate_GdtrOrIdtr_def store_descriptor_table_def
          deref_load_def deref_store_def op fr k run_GetKernelCr3 exit_frame_def
          util_defs run_defs run_Adjust Let_def)
qed

lemma run_LdtrOrTrAccess:
  "\<exists>c' m'. VmmpHandleLdtrOrTrAccess h (c, m) = Inr ((), (c', m')) \<and>
     exit_frame (c, m) (c', m') \<and> cr8 c' = cr8 c \<and> hw_cr3 m' = hw_cr3 m \<and>
     outside_window (kernel_cr3 h m) (trace m') = outside_window (kernel_cr3 h m) (trace m)"
proof -
  let ?i = "ucast (vmcs m kVmxInstructionInfo) :: u32"
  let ?m1 = "log_event (EvVmRead kExitQualification) (log_event (EvVmRead kVmxInstructionInfo) m)"
  from run_LdtrOrTr_operand [of ?i "vmcs m kExitQualification" c ?m1 "kernel_cr3 h m"]
  obtain p m2 where op: "LdtrOrTr_operand ?i (vmcs m kExitQualification) (c, ?m1) = Inr (p, (c, m2))"
    and fr: "vmcs m2 = vmcs m" "hw_cr3 m2 = hw_cr3 m" "hw_cr8 m2 = hw_cr8 m" "KeGetCurrentIrql m2 = KeGetCurrentIrql m"
      "rip_writes (trace m2) = rip_writes (trace m)"
      "outside_window (kernel_cr3 h m) (trace m2) = outside_window (kernel_cr3 h m) (trace m)"
    by auto
  have k: "kernel_cr3 h m2 = kernel_cr3 h m"
    by (rule kernel_cr3_cong) (rule fr)
  show ?thesis
    by (cases p)
       (simp_all add: VmmpHandleLdtrOrTrAccess_def emulate_LdtrOrTr_def
          deref_load_def deref_store_def op fr k run_GetKernelCr3 exit_frame_def
          util_defs run_defs run_Adjust Let_def)
qed

lemma wp_run: "f s = Inr (x, s') \<Longrightarrow> wp f Q s = Q x s'"
  by (simp add: wp_def)

lemma frame_GdtrOrIdtrAccess:
  "wp (VmmpHandleGdtrOrIdtrAccess h) (\<lambda>u s'. exit_frame s s' \<and> cr8 (fst s') = cr8 (fst s)) s"
proof (cases s)
  case (Pair c m)
  from run_GdtrOrIdtrAccess [of h c m] show ?thesis
    unfolding Pair by (auto simp: wp_run)
qed

lemma frame_LdtrOrTrAccess:
  "wp (VmmpHandleLdtrOrTrAccess h) (\<lambda>u s'. exit_frame s s' \<and> cr8 (fst s') = cr8 (fst s)) s"
proof (cases s)
  case (Pair c m)
  from run_LdtrOrTrAccess [of h c m] show ?thesis
    unfolding Pair by (auto simp: wp_run)
qed

subsection \<open>The windows on the guest's address space\<close>





subsection \<open>The dispatcher\<close>

lemma frame_dispatch:
  "wp (dispatch hn h reason)
     (\<lambda>u s'. exit_frame s s' \<and>
        (if reason = kCrAccess
            \<and> bitfield 4 2 (vmcs (snd s) kExitQualification) = 0
            \<and> unat (bitfield 0 4 (vmcs (snd s) kExitQualification)) = 8
         then \<exists>r. VmmpSelectRegister (unat (bitfield 8 4 (vmcs (snd s) kExitQualification))) = Some r
                 \<and> cr8 (fst s') = reg_read r (regs (fst s))
         else cr8 (fst s') = cr8 (fst s))) s"
proof (cases reason)
  case kExceptionOrNmi
  show ?thesis
    unfolding kExceptionOrNmi by (simp add: dispatch_def) (rule wp_mono [OF frame_Exception], simp)
next
  case kTripleFault
  show ?thesis
    unfolding kTripleFault by (simp add: dispatch_def) (rule wp_mono [OF frame_TripleFault], simp)
next
  case kCpuid
  show ?thesis
    unfolding kCpuid by (simp add: dispatch_def) (rule wp_mono [OF frame_Cpuid], simp)
next
  case kInvd
  show ?thesis
    unfolding kInvd by (simp add: dispatch_def) (rule wp_mono [OF frame_Invd], simp)
next
  case kInvlpg
  show ?thesis
    unfolding kInvlpg by (simp add: dispatch_def) (rule wp_mono [OF frame_Invlpg], simp)
next
  case kRdtsc
  show ?thesis
    unfolding kRdtsc by (simp add: dispatch_def) (rule wp_mono [OF frame_Rdtsc], simp)
next
  case kVmcall
  show ?thesis
    unfolding kVmcall by (simp add: dispatch_def) (rule wp_mono [OF frame_VmCall], simp)
next
  case kVmclear
  show ?thesis
    unfolding kVmclear by (simp add: dispatch_def) (rule wp_mono [OF frame_Vmx], simp)
next
  case kVmlaunch
  show ?thesis
    unfolding kVmlaunch by (simp add: dispatch_def) (rule wp_mono [OF frame_Vmx], simp)
next
  case kVmptrld
  show ?thesis
    unfolding kVmptrld by (simp add: dispatch_def) (rule wp_mono [OF frame_Vmx], simp)
next
  case kVmptrst
  show ?thesis
    unfolding kVmptrst by (simp add: dispatch_def) (rule wp_mono [OF frame_Vmx], simp)
next
  case kVmread
  show ?thesis
    unfolding kVmread by (simp add: dispatch_def) (rule wp_mono [OF frame_Vmx], simp)
next
  case kVmresume
  show ?thesis
    unfolding kVmresume by (simp add: dispatch_def) (rule wp_mono [OF frame_Vmx], simp)
next
  case kVmwrite
  show ?thesis
    unfolding kVmwrite by (simp add: dispatch_def) (rule wp_mono [OF frame_Vmx], simp)
next
  case kVmoff
  show ?thesis
    unfolding kVmoff by (simp add: dispatch_def) (rule wp_mono [OF frame_Vmx], simp)
next
  case kVmon
  show ?thesis
    unfolding kVmon by (simp add: dispatch_def) (rule wp_mono [OF frame_Vmx], simp)
next
  case kCrAccess
  show ?thesis
    unfolding kCrAccess by (simp add: dispatch_def) (rule wp_mono [OF frame_CrAccess], simp)
next
  case kDrAccess
  show ?thesis
    unfolding kDrAccess by (simp add: dispatch_def) (rule wp_mono [OF frame_DrAccess], simp)
next
  case kIoInstruction
  show ?thesis
    unfolding kIoInstruction by (simp add: dispatch_def) (rule wp_mono [OF frame_IoPort], simp)
next
  case kMsrRead
  show ?thesis
    unfolding kMsrRead by (simp add: dispatch_def VmmpHandleMsrReadAccess_def) (rule wp_mono [OF frame_MsrAccess], simp)
next
  case kMsrWrite
  show ?thesis
    unfolding kMsrWrite by (simp add: dispatch_def VmmpHandleMsrWriteAccess_def) (rule wp_mono [OF frame_MsrAccess], simp)
next
  case kMonitorTrapFlag
  show ?thesis
    unfolding kMonitorTrapFlag by (simp add: dispatch_def) (rule wp_mono [OF frame_MonitorTrap], simp)
next
  case kGdtrOrIdtrAccess
  show ?thesis
    unfolding kGdtrOrIdtrAccess by (simp add: dispatch_def) (rule wp_mono [OF frame_GdtrOrIdtrAccess], simp)
next
  case kLdtrOrTrAccess
  show ?thesis
    unfolding kLdtrOrTrAccess by (simp add: dispatch_def) (rule wp_mono [OF frame_LdtrOrTrAccess], simp)
next
  case kEptViolation
  show ?thesis
    unfolding kEptViolation by (simp add: dispatch_def) (rule wp_mono [OF frame_EptViolation], simp)
next
  case kEptMisconfig
  show ?thesis
    unfolding kEptMisconfig by (simp add: dispatch_def) (rule wp_mono [OF frame_EptMisconfig], simp)
next
  case kInvept
  show ?thesis
    unfolding kInvept by (simp add: dispatch_def) (rule wp_mono [OF frame_Vmx], simp)
next
  case kRdtscp
  show ?thesis
    unfolding kRdtscp by (simp add: dispatch_def) (rule wp_mono [OF frame_Rdtscp], simp)
next
  case kInvvpid
  show ?thesis
    unfolding kInvvpid by (simp add: dispatch_def) (rule wp_mono [OF frame_Vmx], simp)
next
  case kXsetbv
  show ?thesis
    unfolding kXsetbv by (simp add: dispatch_def) (rule wp_mono [OF frame_Xsetbv], simp)
next
  case kOtherExitReason
  show ?thesis
    unfolding kOtherExitReason by (simp add: dispatch_def) (rule wp_mono [OF frame_UnexpectedExit], simp)
qed

lemma enter_exit_proj:
  "vmcs (snd (enter_exit stk m)) = vmcs m"
  "rip_writes (trace (snd (enter_exit stk m))) = rip_writes (trace m)"
  "irql (fst (enter_exit stk m)) = KeGetCurrentIrql m"
  "cr8 (fst (enter_exit stk m)) = hw_cr8 m"
  "ip (fst (enter_exit stk m)) = vmcs m kGuestRip"
  "regs (fst (enter_exit stk m)) = (gp_regs stk)\<lparr>sp := vmcs m kGuestRsp\<rparr>"
  by (simp_all add: enter_exit_def KeRaiseIrqlToDpcLevel_def writecr8_def IsX64_def regs_def
        set_regs_def Let_def)

lemma leave_exit_proj:
  "hw_cr8 (snd (snd (leave_exit s))) = cr8 (fst s)"
  "KeGetCurrentIrql (snd (snd (leave_exit s))) = ucast (cr8 (fst s))"
  "vmcs (snd (snd (leave_exit s))) = vmcs (snd s)"
  "rip_writes (trace (snd (snd (leave_exit s)))) = rip_writes (trace (snd s))"
  by (simp_all add: leave_exit_def KeLowerIrql_def writecr8_def KeGetCurrentIrql_def IsX64_def
        Let_def)

text \<open>
  What the dispatcher has done when it returns. The guest's instruction pointer is as it
  was or has been written once, with the instruction pointer at the exit plus the length
  of the instruction. CR8, and with it the interrupt request level, is the one at entry,
  or after a MOV to CR8 the value of its source register. And bit 63 of the guest's CR3
  is clear if it was.
\<close>

lemma VmmVmExitHandler_frame:
  assumes "VmmVmExitHandler hn h stk m = Inr (b, stk', m')"
  shows "rip_writes (trace m') = rip_writes (trace m) \<and> vmcs m' kGuestRip = vmcs m kGuestRip
         \<or> rip_writes (trace m') =
              rip_writes (trace m) @ [vmcs m kGuestRip + vmcs m kVmExitInstructionLen]
           \<and> vmcs m' kGuestRip = vmcs m kGuestRip + vmcs m kVmExitInstructionLen"
    and "if VmxExitReason_of (ucast (ucast (vmcs m kVmExitReason) :: u32)) = kCrAccess
            \<and> bitfield 4 2 (vmcs m kExitQualification) = 0
            \<and> unat (bitfield 0 4 (vmcs m kExitQualification)) = 8
         then \<exists>r. VmmpSelectRegister (unat (bitfield 8 4 (vmcs m kExitQualification))) = Some r
                 \<and> hw_cr8 m' = reg_read r ((gp_regs stk)\<lparr>sp := vmcs m kGuestRsp\<rparr>)
                 \<and> KeGetCurrentIrql m' =
                     ucast (reg_read r ((gp_regs stk)\<lparr>sp := vmcs m kGuestRsp\<rparr>))
         else hw_cr8 m' = hw_cr8 m \<and> KeGetCurrentIrql m' = KeGetCurrentIrql m"
    and "\<not> bit (vmcs m kGuestCr3) 63 \<Longrightarrow> \<not> bit (vmcs m' kGuestCr3) 63"
proof -
  let ?s0 = "enter_exit stk m"
  let ?s1 = "(fst ?s0, log_event (EvVmRead kVmExitReason) (snd ?s0))"
  let ?reason = "VmxExitReason_of (ucast (ucast (vmcs m kVmExitReason) :: u32))"
  from assms obtain s' where
    run: "VmmpHandleVmExit hn h ?s0 = Inr ((), s')" and out: "leave_exit s' = (b, stk', m')"
    by (auto simp: VmmVmExitHandler_def split: sum.splits)
  have "VmmpHandleVmExit hn h ?s0 = dispatch hn h ?reason ?s1"
    by (simp add: VmmpHandleVmExit_def UtilVmRead_def run_defs enter_exit_proj Let_def)
  with run have d: "dispatch hn h ?reason ?s1 = Inr ((), s')"
    by simp
  from wpD [OF frame_dispatch d]
  have fr: "exit_frame ?s1 s'"
    and c8: "if ?reason = kCrAccess
            \<and> bitfield 4 2 (vmcs (snd ?s1) kExitQualification) = 0
            \<and> unat (bitfield 0 4 (vmcs (snd ?s1) kExitQualification)) = 8
         then \<exists>r. VmmpSelectRegister (unat (bitfield 8 4 (vmcs (snd ?s1) kExitQualification))) = Some r
                 \<and> cr8 (fst s') = reg_read r (regs (fst ?s1))
         else cr8 (fst s') = cr8 (fst ?s1)"
    by blast+
  have m': "m' = snd (snd (leave_exit s'))"
    by (simp add: out)
  from fr show "rip_writes (trace m') = rip_writes (trace m) \<and> vmcs m' kGuestRip = vmcs m kGuestRip
         \<or> rip_writes (trace m') =
              rip_writes (trace m) @ [vmcs m kGuestRip + vmcs m kVmExitInstructionLen]
           \<and> vmcs m' kGuestRip = vmcs m kGuestRip + vmcs m kVmExitInstructionLen"
    by (simp add: m' leave_exit_proj enter_exit_proj exit_frame_def)
  from c8 show "if ?reason = kCrAccess
            \<and> bitfield 4 2 (vmcs m kExitQualification) = 0
            \<and> unat (bitfield 0 4 (vmcs m kExitQualification)) = 8
         then \<exists>r. VmmpSelectRegister (unat (bitfield 8 4 (vmcs m kExitQualification))) = Some r
                 \<and> hw_cr8 m' = reg_read r ((gp_regs stk)\<lparr>sp := vmcs m kGuestRsp\<rparr>)
                 \<and> KeGetCurrentIrql m' =
                     ucast (reg_read r ((gp_regs stk)\<lparr>sp := vmcs m kGuestRsp\<rparr>))
         else hw_cr8 m' = hw_cr8 m \<and> KeGetCurrentIrql m' = KeGetCurrentIrql m"
    by (auto simp add: m' leave_exit_proj enter_exit_proj KeGetCurrentIrql_def split: if_splits)
  from fr show "\<not> bit (vmcs m kGuestCr3) 63 \<Longrightarrow> \<not> bit (vmcs m' kGuestCr3) 63"
    by (auto simp add: m' leave_exit_proj enter_exit_proj exit_frame_def)
qed

subsection \<open>MOV to CR3\<close>

text \<open>
  Claim C1. The field that holds the guest's CR3 does not have bit 63 set: the processor
  refuses to enter the guest otherwise, and whenever the dispatcher returns, whatever
  the exit, the bit is clear if it was clear. For every MOV-to-CR3 exit from such a
  state the handler returns, and the value it commits is
  (requested AND NOT (1 << 63)) OR (previous AND (1 << 63)), where requested is the
  value of the source register and previous the guest's CR3 before the write: it is
  the source register's value with bit 63 cleared, and the bit of the previous value,
  which is clear, is not altered.
\<close>

theorem C1_cr3_write_keeps_bit63:
  assumes "bitfield 4 2 (vmcs m kExitQualification) = 0"
      and "unat (bitfield 0 4 (vmcs m kExitQualification)) = 3"
      and "\<not> bit (vmcs m kGuestCr3) 63"
  shows "(\<exists>r m'. VmmpSelectRegister (unat (bitfield 8 4 (vmcs m kExitQualification))) = Some r \<and>
           VmmpHandleCrAccess h (c, m) = Inr ((), (c, m')) \<and>
           vmcs m' kGuestCr3 =
             (reg_read r (regs c) AND NOT (push_bit 63 1)) OR (vmcs m kGuestCr3 AND push_bit 63 1) \<and>
           vmcs m' kGuestCr3 = reg_read r (regs c) AND NOT (push_bit 63 1) \<and>
           bit (vmcs m' kGuestCr3) 63 = bit (vmcs m kGuestCr3) 63)
         \<and> (\<forall>hn stk b stk' m'. VmmVmExitHandler hn h stk m = Inr (b, stk', m') \<longrightarrow>
               \<not> bit (vmcs m' kGuestCr3) 63)"
proof (intro conjI allI impI)
  obtain r where r: "VmmpSelectRegister (unat (bitfield 8 4 (vmcs m kExitQualification))) = Some r"
    using register_used_Some by blast
  let ?m' = "advanced c (vmwrite kGuestCr3 (reg_read r (regs c) AND NOT (push_bit 63 1))
               (log_event (EvInvvpidSingleContextExceptGlobal (ucast (processor_number h + 1)))
                  (log_event (EvVmRead kExitQualification) m)))"
  have run: "VmmpHandleCrAccess h (c, m) = Inr ((), (c, ?m'))"
    using assms(1,2) r
    by (simp add: VmmpHandleCrAccess_def util_defs run_defs run_Adjust Let_def UtilIsX86Pae_def)
  have val: "vmcs ?m' kGuestCr3 = reg_read r (regs c) AND NOT (push_bit 63 1)"
    by simp
  show "\<exists>r m'. VmmpSelectRegister (unat (bitfield 8 4 (vmcs m kExitQualification))) = Some r \<and>
           VmmpHandleCrAccess h (c, m) = Inr ((), (c, m')) \<and>
           vmcs m' kGuestCr3 =
             (reg_read r (regs c) AND NOT (push_bit 63 1)) OR (vmcs m kGuestCr3 AND push_bit 63 1) \<and>
           vmcs m' kGuestCr3 = reg_read r (regs c) AND NOT (push_bit 63 1) \<and>
           bit (vmcs m' kGuestCr3) 63 = bit (vmcs m kGuestCr3) 63"
    using r run val bit63_cleared [of "reg_read r (regs c)"]
      bit63_kept [OF assms(3)] assms(3)
    by (intro exI [of _ r] exI [of _ ?m']) simp
next
  fix hn stk b stk' m'
  assume "VmmVmExitHandler hn h stk m = Inr (b, stk', m')"
  from VmmVmExitHandler_frame(3) [OF this assms(3)]
  show "\<not> bit (vmcs m' kGuestCr3) 63" .
qed

lemma ex_cr3_context_proj:
  "regs ex_cr3_context = ex_regs\<lparr>ax := 0x8000000000004000\<rparr>"
  by (simp add: ex_cr3_context_def)

theorem C1_cr3_write_keeps_bit63_witness:
  "bit (ax (regs ex_cr3_context)) 63 \<and>
   (\<exists>m'. VmmpHandleCrAccess ex_host (ex_cr3_context, ex_cr3_machine)
            = Inr ((), (ex_cr3_context, m')) \<and>
          vmcs m' kGuestCr3 = 0x4000)"
proof -
  have a1: "bitfield 4 2 (vmcs ex_cr3_machine kExitQualification) = 0"
    by (simp add: bitfield_def ex_cr3_machine_def)
  have a2: "unat (bitfield 0 4 (vmcs ex_cr3_machine kExitQualification)) = 3"
    by (simp add: bitfield_def ex_cr3_machine_def)
  have a3: "\<not> bit (vmcs ex_cr3_machine kGuestCr3) 63"
    by (simp add: ex_cr3_machine_def)
  have sel: "VmmpSelectRegister (unat (bitfield 8 4 (vmcs ex_cr3_machine kExitQualification)))
               = Some RegAx"
    by (simp add: bitfield_def VmmpSelectRegister_def ex_cr3_machine_def)
  have req: "bit (ax (regs ex_cr3_context)) 63"
    by (simp add: ex_cr3_context_proj)
  have val: "reg_read RegAx (regs ex_cr3_context) AND NOT (push_bit 63 1) = (0x4000 :: u64)"
    by (simp add: ex_cr3_context_proj)
  from C1_cr3_write_keeps_bit63 [OF a1 a2 a3, of ex_host ex_cr3_context] sel
  obtain m' where
    "VmmpHandleCrAccess ex_host (ex_cr3_context, ex_cr3_machine) = Inr ((), (ex_cr3_context, m'))"
    and "vmcs m' kGuestCr3 = reg_read RegAx (regs ex_cr3_context) AND NOT (push_bit 63 1)"
    by auto
  with val req show ?thesis
    by auto
qed

subsection \<open>The advance of the instruction pointer\<close>

text \<open>
  Claim C4. The advance writes the guest's instruction pointer once, with the instruction
  pointer saved at the exit plus the exit's instruction length; when the trap flag of the
  saved flags is set it also injects a debug exception and copies the instruction length
  into the entry-instruction-length field, and when it is clear it changes nothing else.
  The handler of EPT violations leaves the control structure as it was and does not
  write the instruction pointer. And whenever the dispatcher returns, whatever the exit
  and its handler, the guest's instruction pointer either has not been written or has
  been written exactly once, with the instruction pointer at the exit plus the reported
  length.
\<close>

theorem C4_instruction_pointer_advance:
  "(\<exists>m'. VmmpAdjustGuestInstructionPointer (c, m) = Inr ((), (c, m')) \<and>
      vmcs m' kGuestRip = ip c + vmcs m kVmExitInstructionLen \<and>
      rip_writes (trace m') = rip_writes (trace m) @ [ip c + vmcs m kVmExitInstructionLen] \<and>
      (flag_tf (flag_reg c) \<longrightarrow>
         vmcs m' kVmEntryIntrInfoField =
           ucast (VmEntryInterruptionInformationField True kHardwareException
                    kDebugException False) \<and>
         vmcs m' kVmEntryInstructionLen = vmcs m kVmExitInstructionLen) \<and>
      (\<not> flag_tf (flag_reg c) \<longrightarrow>
         vmcs m' = (vmcs m)(kGuestRip := ip c + vmcs m kVmExitInstructionLen)))
   \<and> (\<exists>m'. VmmpHandleEptViolation h (c, m) = Inr ((), (c, m')) \<and> vmcs m' = vmcs m \<and>
         rip_writes (trace m') = rip_writes (trace m))
   \<and> (\<forall>b stk' m'. VmmVmExitHandler hn h stk m = Inr (b, stk', m') \<longrightarrow>
         rip_writes (trace m') = rip_writes (trace m) \<and> vmcs m' kGuestRip = vmcs m kGuestRip
         \<or> rip_writes (trace m') =
              rip_writes (trace m) @ [vmcs m kGuestRip + vmcs m kVmExitInstructionLen]
           \<and> vmcs m' kGuestRip = vmcs m kGuestRip + vmcs m kVmExitInstructionLen)"
proof (intro conjI allI impI)
  show "\<exists>m'. VmmpAdjustGuestInstructionPointer (c, m) = Inr ((), (c, m')) \<and>
      vmcs m' kGuestRip = ip c + vmcs m kVmExitInstructionLen \<and>
      rip_writes (trace m') = rip_writes (trace m) @ [ip c + vmcs m kVmExitInstructionLen] \<and>
      (flag_tf (flag_reg c) \<longrightarrow>
         vmcs m' kVmEntryIntrInfoField =
           ucast (VmEntryInterruptionInformationField True kHardwareException
                    kDebugException False) \<and>
         vmcs m' kVmEntryInstructionLen = vmcs m kVmExitInstructionLen) \<and>
      (\<not> flag_tf (flag_reg c) \<longrightarrow>
         vmcs m' = (vmcs m)(kGuestRip := ip c + vmcs m kVmExitInstructionLen))"
    by (simp add: run_Adjust)
  show "\<exists>m'. VmmpHandleEptViolation h (c, m) = Inr ((), (c, m')) \<and> vmcs m' = vmcs m \<and>
         rip_writes (trace m') = rip_writes (trace m)"
    by (simp add: VmmpHandleEptViolation_def EptHandleEptViolation_def run_defs Let_def)
next
  fix b stk' m'
  assume "VmmVmExitHandler hn h stk m = Inr (b, stk', m')"
  then show "rip_writes (trace m') = rip_writes (trace m) \<and> vmcs m' kGuestRip = vmcs m kGuestRip
         \<or> rip_writes (trace m') =
              rip_writes (trace m) @ [vmcs m kGuestRip + vmcs m kVmExitInstructionLen]
           \<and> vmcs m' kGuestRip = vmcs m kGuestRip + vmcs m kVmExitInstructionLen"
    by (rule VmmVmExitHandler_frame)
qed

lemma ex_cpuid_run:
  "\<exists>stk' m'. VmmVmExitHandler ex_hypercalls ex_host ex_stack ex_cpuid_machine
                = Inr (True, stk', m') \<and>
     rip_writes (trace m') = [0x1002]"
  by (simp add: VmmVmExitHandler_def VmmpHandleVmExit_def enter_exit_def leave_exit_def
        dispatch_def VmxExitReason_of_def VmmpHandleCpuid_def ex_cpuid_machine_def ex_stack_def
        KeLowerIrql_def KeRaiseIrqlToDpcLevel_def writecr8_def DISPATCH_LEVEL_def IsX64_def
        regs_def set_regs_def ex_host_def
        util_defs run_defs run_Adjust Let_def)

theorem C4_instruction_pointer_advance_witness:
  "(\<exists>m'. VmmpAdjustGuestInstructionPointer (ex_context\<lparr>flag_reg := 0x102\<rparr>, ex_cpuid_machine)
            = Inr ((), (ex_context\<lparr>flag_reg := 0x102\<rparr>, m')) \<and>
      vmcs m' kGuestRip = 0x1002 \<and> vmcs m' kVmEntryInstructionLen = 2)
   \<and> (\<exists>b stk' m'. VmmVmExitHandler ex_hypercalls ex_host ex_stack ex_cpuid_machine
                     = Inr (b, stk', m') \<and>
         rip_writes (trace m') = [0x1002] \<and> vmcs m' kGuestRip = 0x1002)"
proof -
  let ?c = "ex_context\<lparr>flag_reg := 0x102\<rparr>"
  have tf: "flag_tf (flag_reg ?c)" "ip ?c = 0x1000"
    by (simp_all add: flag_tf_def)
  have v: "vmcs ex_cpuid_machine kGuestRip = 0x1000" "vmcs ex_cpuid_machine kVmExitInstructionLen = 2"
    "rip_writes (trace ex_cpuid_machine) = []"
    by (simp_all add: ex_cpuid_machine_def)
  note t = C4_instruction_pointer_advance
             [of ?c ex_cpuid_machine ex_host ex_hypercalls ex_stack]
  from t tf v obtain m1 where
    a: "VmmpAdjustGuestInstructionPointer (?c, ex_cpuid_machine) = Inr ((), (?c, m1))"
      "vmcs m1 kGuestRip = 0x1002" "vmcs m1 kVmEntryInstructionLen = 2"
    by auto
  from ex_cpuid_run obtain stk' m2 where
    r: "VmmVmExitHandler ex_hypercalls ex_host ex_stack ex_cpuid_machine = Inr (True, stk', m2)"
      "rip_writes (trace m2) = [0x1002]"
    by blast
  from t r have "vmcs m2 kGuestRip = 0x1002"
    by (auto simp: v)
  with a r show ?thesis
    by blast
qed

subsection \<open>The level and CR8\<close>

text \<open>
  Claim C9, as amended. Whenever the dispatcher returns from an exit other than MOV to
  CR8, CR8 holds the value it held at entry, and so the interrupt request level is the
  one at entry. After the exit of a MOV to CR8 (exit reason 28 with a qualification
  naming control register 8 and the move to it) CR8 holds the value of the instruction's
  source register, and the level is that value's low byte.
\<close>

theorem C9_irql_and_cr8_restored:
  assumes "VmmVmExitHandler hn h stk m = Inr (b, stk', m')"
  shows "if VmxExitReason_of (ucast (ucast (vmcs m kVmExitReason) :: u32)) = kCrAccess
            \<and> bitfield 4 2 (vmcs m kExitQualification) = 0
            \<and> unat (bitfield 0 4 (vmcs m kExitQualification)) = 8
         then \<exists>r. VmmpSelectRegister (unat (bitfield 8 4 (vmcs m kExitQualification))) = Some r
                 \<and> hw_cr8 m' = reg_read r ((gp_regs stk)\<lparr>sp := vmcs m kGuestRsp\<rparr>)
                 \<and> KeGetCurrentIrql m' =
                     ucast (reg_read r ((gp_regs stk)\<lparr>sp := vmcs m kGuestRsp\<rparr>))
         else hw_cr8 m' = hw_cr8 m \<and> KeGetCurrentIrql m' = KeGetCurrentIrql m"
  using assms by (rule VmmVmExitHandler_frame(2))

lemma ex_cpuid_run_level:
  "\<exists>stk' m'. VmmVmExitHandler ex_hypercalls ex_host ex_stack (ex_cpuid_machine\<lparr>hw_cr8 := 1\<rparr>)
                = Inr (True, stk', m')"
  by (simp add: VmmVmExitHandler_def VmmpHandleVmExit_def enter_exit_def leave_exit_def
        dispatch_def VmxExitReason_of_def VmmpHandleCpuid_def ex_cpuid_machine_def ex_stack_def
        KeLowerIrql_def KeRaiseIrqlToDpcLevel_def KeGetCurrentIrql_def writecr8_def
        DISPATCH_LEVEL_def IsX64_def regs_def set_regs_def ex_host_def
        util_defs run_defs run_Adjust Let_def)

lemma ex_cr8_run:
  "\<exists>stk' m'. VmmVmExitHandler ex_hypercalls ex_host ex_cr8_stack ex_cr8_machine
                = Inr (True, stk', m')"
  by (simp add: VmmVmExitHandler_def VmmpHandleVmExit_def enter_exit_def leave_exit_def
        dispatch_def VmxExitReason_of_def VmmpHandleCrAccess_def VmmpSelectRegister_def
        bitfield_def ex_cr8_machine_def ex_cr8_stack_def ex_stack_def
        KeLowerIrql_def KeRaiseIrqlToDpcLevel_def KeGetCurrentIrql_def writecr8_def
        DISPATCH_LEVEL_def IsX64_def regs_def set_regs_def
        util_defs run_defs run_Adjust Let_def)

theorem C9_irql_and_cr8_restored_witness:
  "(\<exists>b stk' m'. VmmVmExitHandler ex_hypercalls ex_host ex_stack (ex_cpuid_machine\<lparr>hw_cr8 := 1\<rparr>)
                   = Inr (b, stk', m') \<and>
      hw_cr8 m' = 1 \<and> KeGetCurrentIrql m' = 1)
   \<and> (\<exists>b stk' m'. VmmVmExitHandler ex_hypercalls ex_host ex_cr8_stack ex_cr8_machine
                   = Inr (b, stk', m') \<and>
      hw_cr8 m' = 0xC \<and> KeGetCurrentIrql m' = 12)"
proof -
  let ?m = "ex_cpuid_machine\<lparr>hw_cr8 := 1\<rparr>"
  from ex_cpuid_run_level obtain stk1 m1 where
    r1: "VmmVmExitHandler ex_hypercalls ex_host ex_stack ?m = Inr (True, stk1, m1)"
    by blast
  have v1: "VmxExitReason_of (ucast (ucast (vmcs ex_cpuid_machine kVmExitReason) :: u32)) = kCpuid"
    by (simp add: ex_cpuid_machine_def VmxExitReason_of_def)
  from C9_irql_and_cr8_restored [OF r1] have w1: "hw_cr8 m1 = 1 \<and> KeGetCurrentIrql m1 = 1"
    by (simp add: v1 KeGetCurrentIrql_def)
  from ex_cr8_run obtain stk2 m2 where
    r2: "VmmVmExitHandler ex_hypercalls ex_host ex_cr8_stack ex_cr8_machine = Inr (True, stk2, m2)"
    by blast
  have v2: "VmxExitReason_of (ucast (ucast (vmcs ex_cr8_machine kVmExitReason) :: u32)) = kCrAccess"
    "bitfield 4 2 (vmcs ex_cr8_machine kExitQualification) = 0"
    "unat (bitfield 0 4 (vmcs ex_cr8_machine kExitQualification)) = 8"
    "VmmpSelectRegister (unat (bitfield 8 4 (vmcs ex_cr8_machine kExitQualification))) = Some RegAx"
    by (simp_all add: ex_cr8_machine_def VmxExitReason_of_def bitfield_def VmmpSelectRegister_def)
  have g: "ax (gp_regs ex_cr8_stack) = 0xC"
    by (simp add: ex_cr8_stack_def)
  from C9_irql_and_cr8_restored [OF r2] have w2: "hw_cr8 m2 = 0xC \<and> KeGetCurrentIrql m2 = 12"
    by (simp add: v2 g)
  from r1 w1 r2 w2 show ?thesis
    by blast
qed

text \<open>
  At the exit of MOV to CR8 from RAX, with RAX 0xC and CR8 0, the dispatcher returns
  with CR8 0xC and the level 12: neither is the one at entry.
\<close>

theorem C9_counterexample:
  "returned_cr8 (VmmVmExitHandler ex_hypercalls ex_host ex_cr8_stack ex_cr8_machine) = Some 0xC
   \<and> returned_irql (VmmVmExitHandler ex_hypercalls ex_host ex_cr8_stack ex_cr8_machine) = Some 12
   \<and> hw_cr8 ex_cr8_machine = 0 \<and> KeGetCurrentIrql ex_cr8_machine = 0"
  by (simp add: returned_cr8_def returned_irql_def VmmVmExitHandler_def VmmpHandleVmExit_def
        enter_exit_def leave_exit_def dispatch_def VmxExitReason_of_def VmmpHandleCrAccess_def
        VmmpSelectRegister_def bitfield_def ex_cr8_machine_def ex_cr8_stack_def ex_stack_def
        KeLowerIrql_def KeRaiseIrqlToDpcLevel_def KeGetCurrentIrql_def writecr8_def
        DISPATCH_LEVEL_def IsX64_def regs_def set_regs_def
        util_defs run_defs run_Adjust Let_def)


end
